theory Spec2Isabelle
  imports Main "HOL-Library.Sublist"
begin

section \<open>JavaScript strings and optional values\<close>

text \<open>
  Strings are lists of characters.  The source only ever splits, joins and compares them
  code unit by code unit, so one \<^typ>\<open>char\<close> stands for one code unit.
  A value that may be \<^verbatim>\<open>undefined\<close> is a \<^typ>\<open>string option\<close>.
\<close>

text \<open>\<^verbatim>\<open>s.replace(/c/g, r)\<close> for a one-character pattern: every occurrence of the
  character is replaced by the string \<open>r\<close>.\<close>

definition replace_all :: "char \<Rightarrow> string \<Rightarrow> string \<Rightarrow> string" where
  "replace_all c r s = concat (map (\<lambda>x. if x = c then r else [x]) s)"

text \<open>\<^verbatim>\<open>s.slice(start, end)\<close>: a negative index counts from the end of the string, both
  indices are clamped to the string, and an absent \<open>end\<close> is the length.\<close>

definition slice :: "int \<Rightarrow> int option \<Rightarrow> string \<Rightarrow> string" where
  "slice start fin s =
     (let len = int (length s);
          lo = (if start < 0 then max (len + start) 0 else min start len);
          hi = (case fin of None \<Rightarrow> len
                | Some e \<Rightarrow> if e < 0 then max (len + e) 0 else min e len)
      in take (nat (hi - lo)) (drop (nat lo) s))"

text \<open>\<^verbatim>\<open>s.includes(sub)\<close>: \<open>sub\<close> occurs in \<open>s\<close> as a contiguous run.\<close>

fun str_includes :: "string \<Rightarrow> string \<Rightarrow> bool" where
  "str_includes [] sub = (sub = [])"
| "str_includes (c # cs) sub = (prefix sub (c # cs) \<or> str_includes cs sub)"

text \<open>Truthiness of an optional string: \<^verbatim>\<open>undefined\<close> and the empty string are falsy.\<close>

definition truthy :: "string option \<Rightarrow> bool" where
  "truthy x = (case x of None \<Rightarrow> False | Some s \<Rightarrow> s \<noteq> [])"

text \<open>An optional string inside a template literal or a concatenation:
  \<^verbatim>\<open>undefined\<close> is rendered as the text \<^verbatim>\<open>undefined\<close>.\<close>

definition render :: "string option \<Rightarrow> string" where
  "render x = (case x of None \<Rightarrow> ''undefined'' | Some s \<Rightarrow> s)"

section \<open>Container name and host port\<close>

definition getContainerName :: "string \<Rightarrow> string" where
  "getContainerName mysqlVersion =
     ''docker-mysql-'' @ replace_all (CHR ''.'') ''-'' mysqlVersion"

definition mysqlRootPassword :: string where
  "mysqlRootPassword = ''docker-mysql-root-password''"

definition getPort :: "string \<Rightarrow> string" where
  "getPort mysqlVersion =
     (if mysqlVersion = ''latest'' then ''3306''
      else ''3'' @ slice (- 3) None
             (''000'' @ slice 0 (Some 3) (replace_all (CHR ''.'') [] mysqlVersion)))"

section \<open>External processes\<close>

text \<open>
  Every operation of the tool runs an external program through \<^verbatim>\<open>execa\<close>.  An
  invocation is the program, its argument list and whether its streams are captured
  (the default) or inherited; the environment is always the caller's own and is left out.
  A failed run rejects with an error object of which the code reads the captured
  \<^verbatim>\<open>stderr\<close> text only.  No timeout is set on a child process; every command is
  taken to end, with success or with an error.
\<close>

datatype stdio_mode = Pipe | Inherit

record invocation =
  command :: string
  args :: "string list"
  stdio :: stdio_mode

datatype exec_error = ExecaError (stderr: string)

datatype settled = Fulfilled | Rejected exec_error

text \<open>What the program does to its surroundings is observed as a trace: the external
  commands it ran and the lines it printed with \<^verbatim>\<open>console.info\<close>, in order.\<close>

datatype event = Exec invocation | Info string

record 'w sys =
  trace :: "event list"
  world :: 'w

text \<open>The container runtime and the database are outside the program: how a command
  ends and what it changes is a parameter of the model.  An asynchronous function is a
  function from the state before the call to its settled result and the state after.\<close>

type_synonym 'w runtime = "invocation \<Rightarrow> 'w \<Rightarrow> settled \<times> 'w"

type_synonym 's async = "'s \<Rightarrow> settled \<times> 's"

definition console_info :: "string \<Rightarrow> 'w sys \<Rightarrow> 'w sys" where
  "console_info msg st = st\<lparr>trace := trace st @ [Info msg]\<rparr>"

definition exec :: "'w runtime \<Rightarrow> string \<Rightarrow> string list \<Rightarrow> stdio_mode \<Rightarrow> 'w sys async" where
  "exec execa cmd arguments mode st =
     (let call = \<lparr>command = cmd, args = arguments, stdio = mode\<rparr>;
          (res, w) = execa call (world st)
      in (res, st\<lparr>trace := trace st @ [Exec call], world := w\<rparr>))"

section \<open>Running a statement in the container\<close>

record mysql_options =
  userName :: "string option"
  password :: "string option"
  databaseName :: "string option"
  stdio_opt :: stdio_mode

definition no_options :: mysql_options where
  "no_options = \<lparr>userName = None, password = None, databaseName = None, stdio_opt = Pipe\<rparr>"

text \<open>The argument list \<open>execMysql\<close> builds.  The credentials default to the
  administrator's only when neither is given; the values are then spliced into template
  literals, and the database is \<^verbatim>\<open>database || ''\<close>.\<close>

definition execMysql_args :: "string \<Rightarrow> string \<Rightarrow> mysql_options \<Rightarrow> string list" where
  "execMysql_args mysqlVersion statement options =
     (let (user, pass) =
            (if userName options = None \<and> password options = None
             then (Some ''root'', Some mysqlRootPassword)
             else (userName options, password options));
          database = databaseName options
      in [''exec'', ''--env'', ''MYSQL_PWD='' @ render pass, getContainerName mysqlVersion,
          ''mysql'', ''--user='' @ render user,
          (if truthy database then render database else []), ''-e'', statement])"

definition execMysql :: "'w runtime \<Rightarrow> string \<Rightarrow> string \<Rightarrow> mysql_options \<Rightarrow> 'w sys async" where
  "execMysql execa mysqlVersion statement options st =
     exec execa ''docker'' (execMysql_args mysqlVersion statement options) (stdio_opt options) st"

section \<open>The retry loop\<close>

text \<open>
  \<open>retryCommand\<close> returns a promise that only the loop can settle.  A run of the loop
  records how often the action was invoked, for how many milliseconds timers were
  awaited, the state of that promise (\<open>None\<close> while it is pending) and the state the
  action works on.  An action is any asynchronous function whose rejections are errors of
  the process runner, the only errors the actions passed in this program reject with: the
  handler reads their \<^verbatim>\<open>stderr\<close>.
\<close>

record 's run =
  invocations :: nat
  waited :: nat
  promise :: "settled option"
  state :: 's

definition start :: "'s \<Rightarrow> 's run" where
  "start s = \<lparr>invocations = 0, waited = 0, promise = None, state = s\<rparr>"

text \<open>The test in the rejection handler:
  \<^verbatim>\<open>successErrorStr && e.stderr.toString().includes(successErrorStr)\<close>.\<close>

definition matches :: "string option \<Rightarrow> exec_error \<Rightarrow> bool" where
  "matches successErrorStr e =
     (case successErrorStr of
        None \<Rightarrow> False
      | Some sub \<Rightarrow> sub \<noteq> [] \<and> str_includes (stderr e) sub)"

text \<open>One call of the inner \<^verbatim>\<open>loop\<close>: the 100 ms timer elapses, the action is
  invoked, and its result either resolves the promise or leaves it pending, in which case
  the handler calls \<^verbatim>\<open>loop\<close> again.\<close>

definition attempt :: "'s async \<Rightarrow> string option \<Rightarrow> 's run \<Rightarrow> 's run" where
  "attempt commandCallback successErrorStr r =
     (let r1 = r\<lparr>waited := waited r + 100\<rparr>;
          (res, s) = commandCallback (state r1);
          r2 = r1\<lparr>invocations := invocations r1 + 1, state := s\<rparr>
      in case res of
           Fulfilled \<Rightarrow> r2\<lparr>promise := Some Fulfilled\<rparr>
         | Rejected e \<Rightarrow>
             if matches successErrorStr e then r2\<lparr>promise := Some Fulfilled\<rparr> else r2)"

partial_function (option) loop :: "'s async \<Rightarrow> string option \<Rightarrow> 's run \<Rightarrow> 's run option" where
  "loop commandCallback successErrorStr r =
     (let r' = attempt commandCallback successErrorStr r
      in if promise r' = None then loop commandCallback successErrorStr r' else Some r')"

text \<open>The result is \<open>None\<close> when the promise stays pending for ever.\<close>

definition retryCommand :: "'s async \<Rightarrow> string option \<Rightarrow> 's \<Rightarrow> 's run option" where
  "retryCommand commandCallback successErrorStr s =
     loop commandCallback successErrorStr (start s)"

text \<open>The same loop watched for at most \<open>n\<close> timer periods: the run it has reached by
  then, settled or still pending.\<close>

primrec poll :: "nat \<Rightarrow> 's async \<Rightarrow> string option \<Rightarrow> 's run \<Rightarrow> 's run" where
  "poll 0 commandCallback successErrorStr r = r"
| "poll (Suc n) commandCallback successErrorStr r =
     (let r' = attempt commandCallback successErrorStr r
      in if promise r' = None then poll n commandCallback successErrorStr r' else r')"

text \<open>Vocabulary for the successive invocations of an action: the state in which
  invocation number \<open>k + 1\<close> starts, its result, and whether that result ends the loop.\<close>

definition state_before :: "'s async \<Rightarrow> nat \<Rightarrow> 's \<Rightarrow> 's" where
  "state_before cb k s = ((\<lambda>x. snd (cb x)) ^^ k) s"

definition outcome :: "'s async \<Rightarrow> nat \<Rightarrow> 's \<Rightarrow> settled" where
  "outcome cb k s = fst (cb (state_before cb k s))"

definition stops :: "string option \<Rightarrow> settled \<Rightarrow> bool" where
  "stops successErrorStr res =
     (case res of Fulfilled \<Rightarrow> True | Rejected e \<Rightarrow> matches successErrorStr e)"

section \<open>Provisioning\<close>

text \<open>A step that awaits a retry loop may never finish: its result is optional, \<open>None\<close>
  standing for a promise that never settles.  \<open>and_then\<close> is the sequencing of
  \<^verbatim>\<open>await\<close>: a rejection ends the whole function, a pending step blocks it.\<close>

definition await_retry :: "'s run option \<Rightarrow> (settled \<times> 's) option" where
  "await_retry m =
     (case m of
        None \<Rightarrow> None
      | Some r \<Rightarrow> (case promise r of None \<Rightarrow> None | Some res \<Rightarrow> Some (res, state r)))"

definition and_then ::
  "(settled \<times> 's) option \<Rightarrow> ('s \<Rightarrow> (settled \<times> 's) option) \<Rightarrow> (settled \<times> 's) option" where
  "and_then m k =
     (case m of
        None \<Rightarrow> None
      | Some (Fulfilled, s) \<Rightarrow> k s
      | Some (Rejected e, s) \<Rightarrow> Some (Rejected e, s))"

definition createDatabase ::
  "'w runtime \<Rightarrow> string \<Rightarrow> string \<Rightarrow> 'w sys \<Rightarrow> (settled \<times> 'w sys) option" where
  "createDatabase execa mysqlVersion name st =
     await_retry
       (retryCommand (execMysql execa mysqlVersion (''create database '' @ name) no_options)
          (Some ''database exists'')
          (console_info (''Creating database '' @ name @ ''...'') st))"

definition createUser ::
  "'w runtime \<Rightarrow> string \<Rightarrow> string \<Rightarrow> string \<Rightarrow> 'w sys \<Rightarrow> (settled \<times> 'w sys) option" where
  "createUser execa mysqlVersion name pass st =
     await_retry
       (retryCommand
          (execMysql execa mysqlVersion
             (''create user '' @ name @ '' identified by '' @ [CHR 0x27] @ pass @ [CHR 0x27])
             no_options)
          (Some ''ERROR 1396'')
          (console_info (''Creating user '' @ name @ ''...'') st))"

definition grantDatabaseToUser ::
  "'w runtime \<Rightarrow> string \<Rightarrow> string \<Rightarrow> string \<Rightarrow> 'w sys \<Rightarrow> (settled \<times> 'w sys) option" where
  "grantDatabaseToUser execa mysqlVersion user database st =
     await_retry
       (retryCommand
          (execMysql execa mysqlVersion (''grant all on '' @ database @ ''.* to '' @ user)
             no_options)
          None
          (console_info (''Assign user '' @ user @ '' to database '' @ database @ ''...'') st))"

definition up :: "'w runtime \<Rightarrow> string \<Rightarrow> 'w sys async" where
  "up execa mysqlVersion st =
     (let (started, st1) = exec execa ''docker'' [''start'', getContainerName mysqlVersion] Pipe st;
          running = (case started of Fulfilled \<Rightarrow> True | Rejected e \<Rightarrow> False)
      in if running then (Fulfilled, st1)
         else exec execa ''docker''
                [''run'', ''--name'', getContainerName mysqlVersion,
                 ''--env'', ''MYSQL_ROOT_PASSWORD='' @ mysqlRootPassword,
                 ''--publish'', getPort mysqlVersion @ '':3306'',
                 ''--volume'', getContainerName mysqlVersion @ '':/var/lib/mysql'',
                 ''-d'', ''mysql:'' @ mysqlVersion]
                Inherit st1)"

text \<open>The action of the \<^verbatim>\<open>prepare\<close> command.  The two options are optional strings;
  \<open>userCreated\<close> is their conjunction taken for its truthiness.\<close>

definition prepare ::
  "'w runtime \<Rightarrow> string \<Rightarrow> string \<Rightarrow> string option \<Rightarrow> string option \<Rightarrow> 'w sys
     \<Rightarrow> (settled \<times> 'w sys) option" where
  "prepare execa mysqlVersion database user pass st =
     and_then (Some (up execa mysqlVersion st)) (\<lambda>st1.
     and_then (createDatabase execa mysqlVersion database st1) (\<lambda>st2.
     let userCreated = (truthy user \<and> truthy pass) in
     and_then (if userCreated then createUser execa mysqlVersion (render user) (render pass) st2
               else Some (Fulfilled, st2)) (\<lambda>st3.
     and_then (if userCreated then grantDatabaseToUser execa mysqlVersion (render user) database st3
               else Some (Fulfilled, st3)) (\<lambda>st4.
     Some (Fulfilled,
       console_info (''Success: mysql is running on port '' @ getPort mysqlVersion) st4)))))"

text \<open>The action of the \<^verbatim>\<open>rm\<close> command: the drop is attempted once and a rejection
  is caught by a handler that does nothing.\<close>

definition rm ::
  "'w runtime \<Rightarrow> string \<Rightarrow> string \<Rightarrow> string option \<Rightarrow> string option \<Rightarrow> 'w sys async" where
  "rm execa mysqlVersion database user pass st =
     (let options = \<lparr>userName = user, password = pass, databaseName = None, stdio_opt = Pipe\<rparr>;
          (dropped, st1) = execMysql execa mysqlVersion (''drop database '' @ database) options st
      in case dropped of
           Fulfilled \<Rightarrow> (Fulfilled, st1)
         | Rejected e \<Rightarrow> (Fulfilled, st1))"

section \<open>Observing a trace\<close>

text \<open>The SQL statement an event sends to the database client, if it is a run of
  \<open>mysql\<close> inside the container, and the two kinds of statement that make up the
  user steps of provisioning.\<close>

definition sql_statement :: "event \<Rightarrow> string option" where
  "sql_statement ev =
     (case ev of
        Exec call \<Rightarrow>
          if command call = ''docker'' \<and> length (args call) = 9
             \<and> args call ! 0 = ''exec'' \<and> args call ! 4 = ''mysql''
          then Some (args call ! 8) else None
      | Info msg \<Rightarrow> None)"

definition creates_user :: "event \<Rightarrow> bool" where
  "creates_user ev =
     (case sql_statement ev of None \<Rightarrow> False | Some q \<Rightarrow> prefix ''create user '' q)"

definition grants :: "event \<Rightarrow> bool" where
  "grants ev =
     (case sql_statement ev of None \<Rightarrow> False | Some q \<Rightarrow> prefix ''grant all on '' q)"

section \<open>The naming functions as the specification words them\<close>

text \<open>The two derivations as the specification words them, for comparison with the
  code above: the container name is the tag followed by the version with every dot
  turned into a dash; the port is \<open>3306\<close> for \<open>latest\<close>, and otherwise the digit
  \<open>3\<close> followed by the first three characters of the dot-free version padded on the left
  with zeros to three characters.\<close>

definition pad_left :: "nat \<Rightarrow> char \<Rightarrow> string \<Rightarrow> string" where
  "pad_left n c s = replicate (n - length s) c @ s"

definition undotted :: "string \<Rightarrow> string" where
  "undotted v = filter (\<lambda>c. c \<noteq> CHR ''.'') v"

definition containerName_spec :: "string \<Rightarrow> string" where
  "containerName_spec v = ''docker-mysql-'' @ map (\<lambda>c. if c = CHR ''.'' then CHR ''-'' else c) v"

definition hostPort_spec :: "string \<Rightarrow> string" where
  "hostPort_spec v =
     (if v = ''latest'' then ''3306'' else CHR ''3'' # take 3 (pad_left 3 (CHR ''0'') (undotted v)))"

section \<open>Example actions and runtimes\<close>

text \<open>Two concrete actions on which the theorems below are instantiated.  Their state
  counts the invocations made so far.  A scripted action settles its \<open>k\<close>-th invocation
  as the script says and succeeds once the script is used up; a failing action rejects
  every invocation with the same error.\<close>

definition scripted :: "settled list \<Rightarrow> nat async" where
  "scripted script k = ((if k < length script then script ! k else Fulfilled), Suc k)"

definition failing :: "exec_error \<Rightarrow> nat async" where
  "failing e k = (Rejected e, Suc k)"

text \<open>Four container runtimes for the same purpose: one on which every command succeeds,
  one on which every command fails with a given error, one that has no container yet,
  so that \<open>docker start\<close> fails and everything else succeeds, and one that fails, with a
  given error, every command with an argument that starts with a given text (the
  beginning of an SQL statement) and succeeds otherwise.\<close>

definition obliging :: "'w runtime" where
  "obliging call w = (Fulfilled, w)"

definition refusing :: "exec_error \<Rightarrow> 'w runtime" where
  "refusing e call w = (Rejected e, w)"

definition without_container :: "'w runtime" where
  "without_container call w =
     (if take 1 (args call) = [''start''] then (Rejected (ExecaError ''No such container''), w)
      else (Fulfilled, w))"

definition rejecting :: "string \<Rightarrow> exec_error \<Rightarrow> 'w runtime" where
  "rejecting pre e call w =
     (if list_ex (prefix pre) (args call) then (Rejected e, w) else (Fulfilled, w))"

section \<open>Facts about the string operations\<close>

lemma replace_all_delete: "replace_all c [] s = filter (\<lambda>x. x \<noteq> c) s"
  by (induction s) (simp_all add: replace_all_def)

lemma replace_all_single: "replace_all c [d] s = map (\<lambda>x. if x = c then d else x) s"
  by (induction s) (simp_all add: replace_all_def)

lemma slice_first: "slice 0 (Some (int n)) s = take n s"
  by (simp add: slice_def min_def)

lemma slice_last:
  assumes "0 < n" "n \<le> length s"
  shows "slice (- int n) None s = drop (length s - n) s"
proof -
  from assms have "nat (int (length s) - int n) = length s - n" by linarith
  with assms show ?thesis by (simp add: slice_def Let_def max_def)
qed

lemma zero_fill_last3:
  assumes "length t \<le> 3"
  shows "slice (- 3) None (''000'' @ t) = pad_left 3 (CHR ''0'') t"
proof -
  have "slice (- int 3) None (''000'' @ t) = drop (length (''000'' @ t) - 3) (''000'' @ t)"
    by (rule slice_last) simp_all
  moreover have "drop (length t) (''000'' @ t) = replicate (3 - length t) (CHR ''0'') @ t"
  proof -
    from assms consider "length t = 0" | "length t = 1" | "length t = 2" | "length t = 3"
      by linarith
    then show ?thesis
      by cases (simp_all add: numeral_2_eq_2 numeral_3_eq_3)
  qed
  ultimately show ?thesis by (simp add: pad_left_def)
qed

lemma take3_pad_left: "take 3 (pad_left 3 c s) = pad_left 3 c (take 3 s)"
proof (cases "length s \<le> 3")
  case True
  then have "length (replicate (3 - length s) c @ s) = 3" by simp
  then have "take 3 (replicate (3 - length s) c @ s) = replicate (3 - length s) c @ s"
    by (metis order_refl take_all)
  with True show ?thesis by (simp add: pad_left_def)
next
  case False
  then show ?thesis by (simp add: pad_left_def)
qed

lemma getPort_refines: "getPort v = hostPort_spec v"
proof (cases "v = ''latest''")
  case True
  then show ?thesis by (simp add: getPort_def hostPort_spec_def)
next
  case False
  have "slice (- 3) None (''000'' @ take 3 (undotted v)) = pad_left 3 (CHR ''0'') (take 3 (undotted v))"
    by (rule zero_fill_last3) simp
  moreover have "slice 0 (Some 3) (undotted v) = take 3 (undotted v)"
    using slice_first [of 3 "undotted v"] by simp
  ultimately show ?thesis
    using False
    by (simp add: getPort_def hostPort_spec_def replace_all_delete undotted_def [symmetric]
        take3_pad_left)
qed

section \<open>Facts about the retry loop\<close>

lemma state_before_0 [simp]: "state_before cb 0 s = s"
  by (simp add: state_before_def)

lemma state_before_Suc: "state_before cb (Suc k) s = state_before cb k (snd (cb s))"
  using funpow_swap1 [of "\<lambda>x. snd (cb x)" k s] by (simp add: state_before_def)

lemma state_before_Suc': "state_before cb (Suc k) s = snd (cb (state_before cb k s))"
  by (simp add: state_before_def)

lemma outcome_0: "outcome cb 0 s = fst (cb s)"
  by (simp add: outcome_def)

lemma outcome_Suc: "outcome cb (Suc k) s = outcome cb k (snd (cb s))"
  by (simp add: outcome_def state_before_Suc)

lemma attempt_stops:
  assumes "stops sub (fst (cb (state r)))"
  shows "attempt cb sub r =
    r\<lparr>waited := waited r + 100, invocations := invocations r + 1,
      state := snd (cb (state r)), promise := Some Fulfilled\<rparr>"
  using assms
  by (cases "cb (state r)") (auto simp add: attempt_def stops_def split: settled.splits)

lemma attempt_retries:
  assumes "\<not> stops sub (fst (cb (state r)))"
  shows "attempt cb sub r =
    r\<lparr>waited := waited r + 100, invocations := invocations r + 1,
      state := snd (cb (state r))\<rparr>"
  using assms
  by (cases "cb (state r)") (auto simp add: attempt_def stops_def split: settled.splits)

lemma poll_pending:
  assumes "promise r = None" "\<forall>k<n. \<not> stops sub (outcome cb k (state r))"
  shows "poll n cb sub r =
    r\<lparr>waited := waited r + 100 * n, invocations := invocations r + n,
      state := state_before cb n (state r)\<rparr>"
  using assms
proof (induction n arbitrary: r)
  case 0
  then show ?case by simp
next
  case (Suc n)
  from Suc.prems(2) have first: "\<not> stops sub (fst (cb (state r)))"
    using outcome_0 [of cb "state r"] by auto
  let ?r' = "attempt cb sub r"
  have r': "?r' = r\<lparr>waited := waited r + 100, invocations := invocations r + 1,
      state := snd (cb (state r))\<rparr>"
    using first by (rule attempt_retries)
  have pend: "promise ?r' = None"
    using Suc.prems(1) by (simp add: r')
  have rest: "\<forall>k<n. \<not> stops sub (outcome cb k (state ?r'))"
    using Suc.prems(2) by (auto simp add: r' outcome_Suc [symmetric])
  have "poll (Suc n) cb sub r = poll n cb sub ?r'"
    using pend by (simp add: Let_def)
  also have "\<dots> = ?r'\<lparr>waited := waited ?r' + 100 * n, invocations := invocations ?r' + n,
      state := state_before cb n (state ?r')\<rparr>"
    using pend rest by (rule Suc.IH)
  also have "\<dots> = r\<lparr>waited := waited r + 100 * Suc n, invocations := invocations r + Suc n,
      state := state_before cb (Suc n) (state r)\<rparr>"
    by (simp add: r' state_before_Suc)
  finally show ?case .
qed

lemma poll_resolved:
  assumes "promise r = None" "\<forall>k<n. \<not> stops sub (outcome cb k (state r))"
    "stops sub (outcome cb n (state r))" "n < m"
  shows "poll m cb sub r =
    r\<lparr>waited := waited r + 100 * Suc n, invocations := invocations r + Suc n,
      state := state_before cb (Suc n) (state r), promise := Some Fulfilled\<rparr>"
  using assms
proof (induction n arbitrary: r m)
  case 0
  then obtain m' where m: "m = Suc m'" by (cases m) auto
  from 0 have "stops sub (fst (cb (state r)))" by (simp add: outcome_0)
  then have "attempt cb sub r = r\<lparr>waited := waited r + 100, invocations := invocations r + 1,
      state := snd (cb (state r)), promise := Some Fulfilled\<rparr>"
    by (rule attempt_stops)
  then show ?case by (simp add: m Let_def state_before_Suc)
next
  case (Suc n)
  then obtain m' where m: "m = Suc m'" and m': "n < m'" by (cases m) auto
  from Suc.prems(2) have first: "\<not> stops sub (fst (cb (state r)))"
    using outcome_0 [of cb "state r"] by auto
  let ?r' = "attempt cb sub r"
  have r': "?r' = r\<lparr>waited := waited r + 100, invocations := invocations r + 1,
      state := snd (cb (state r))\<rparr>"
    using first by (rule attempt_retries)
  have pend: "promise ?r' = None"
    using Suc.prems(1) by (simp add: r')
  have rest: "\<forall>k<n. \<not> stops sub (outcome cb k (state ?r'))"
    using Suc.prems(2) by (auto simp add: r' outcome_Suc [symmetric])
  have last: "stops sub (outcome cb n (state ?r'))"
    using Suc.prems(3) by (simp add: r' outcome_Suc)
  have "poll m cb sub r = poll m' cb sub ?r'"
    using pend by (simp add: m Let_def)
  also have "\<dots> = ?r'\<lparr>waited := waited ?r' + 100 * Suc n,
      invocations := invocations ?r' + Suc n,
      state := state_before cb (Suc n) (state ?r'), promise := Some Fulfilled\<rparr>"
    using pend rest last m' by (rule Suc.IH)
  also have "\<dots> = r\<lparr>waited := waited r + 100 * Suc (Suc n),
      invocations := invocations r + Suc (Suc n),
      state := state_before cb (Suc (Suc n)) (state r), promise := Some Fulfilled\<rparr>"
    by (simp add: r' state_before_Suc [of cb "Suc n"])
  finally show ?case .
qed

lemma loop_resolved:
  assumes "promise r = None" "\<forall>k<n. \<not> stops sub (outcome cb k (state r))"
    "stops sub (outcome cb n (state r))"
  shows "loop cb sub r = Some
    (r\<lparr>waited := waited r + 100 * Suc n, invocations := invocations r + Suc n,
      state := state_before cb (Suc n) (state r), promise := Some Fulfilled\<rparr>)"
  using assms
proof (induction n arbitrary: r)
  case 0
  from 0 have "stops sub (fst (cb (state r)))" by (simp add: outcome_0)
  then have "attempt cb sub r = r\<lparr>waited := waited r + 100, invocations := invocations r + 1,
      state := snd (cb (state r)), promise := Some Fulfilled\<rparr>"
    by (rule attempt_stops)
  then show ?case
    by (subst loop.simps) (simp add: Let_def state_before_Suc)
next
  case (Suc n)
  from Suc.prems(2) have first: "\<not> stops sub (fst (cb (state r)))"
    using outcome_0 [of cb "state r"] by auto
  let ?r' = "attempt cb sub r"
  have r': "?r' = r\<lparr>waited := waited r + 100, invocations := invocations r + 1,
      state := snd (cb (state r))\<rparr>"
    using first by (rule attempt_retries)
  have pend: "promise ?r' = None"
    using Suc.prems(1) by (simp add: r')
  have rest: "\<forall>k<n. \<not> stops sub (outcome cb k (state ?r'))"
    using Suc.prems(2) by (auto simp add: r' outcome_Suc [symmetric])
  have last: "stops sub (outcome cb n (state ?r'))"
    using Suc.prems(3) by (simp add: r' outcome_Suc)
  have "loop cb sub r = loop cb sub ?r'"
    using pend by (subst loop.simps) (simp add: Let_def)
  also have "\<dots> = Some (?r'\<lparr>waited := waited ?r' + 100 * Suc n,
      invocations := invocations ?r' + Suc n,
      state := state_before cb (Suc n) (state ?r'), promise := Some Fulfilled\<rparr>)"
    using pend rest last by (rule Suc.IH)
  also have "\<dots> = Some (r\<lparr>waited := waited r + 100 * Suc (Suc n),
      invocations := invocations r + Suc (Suc n),
      state := state_before cb (Suc (Suc n)) (state r), promise := Some Fulfilled\<rparr>)"
    by (simp add: r' state_before_Suc [of cb "Suc n"])
  finally show ?case .
qed

lemma loop_Some_stops:
  assumes "loop cb sub r = Some y" "promise r = None"
  shows "\<exists>k. stops sub (outcome cb k (state r))"
proof -
  have "promise r = None \<longrightarrow> (\<exists>k. stops sub (outcome cb k (state r)))"
  proof (rule loop.raw_induct
      [where P = "\<lambda>cb sub r y. promise r = None \<longrightarrow> (\<exists>k. stops sub (outcome cb k (state r)))",
        OF _ assms(1)])
    fix loop' :: "'a async \<Rightarrow> string option \<Rightarrow> 'a run \<Rightarrow> 'a run option"
      and cb sub r y
    assume IH: "\<And>cb sub r y. loop' cb sub r = Some y \<Longrightarrow>
        promise r = None \<longrightarrow> (\<exists>k. stops sub (outcome cb k (state r)))"
      and body: "(let r' = attempt cb sub r
          in if promise r' = None then loop' cb sub r' else Some r') = Some y"
    show "promise r = None \<longrightarrow> (\<exists>k. stops sub (outcome cb k (state r)))"
    proof
      assume pending: "promise r = None"
      show "\<exists>k. stops sub (outcome cb k (state r))"
      proof (cases "stops sub (fst (cb (state r)))")
        case True
        then have "stops sub (outcome cb 0 (state r))" by (simp add: outcome_0)
        then show ?thesis ..
      next
        case False
        let ?r' = "attempt cb sub r"
        have r': "?r' = r\<lparr>waited := waited r + 100, invocations := invocations r + 1,
            state := snd (cb (state r))\<rparr>"
          using False by (rule attempt_retries)
        have pend: "promise ?r' = None"
          using pending by (simp add: r')
        with body have "loop' cb sub ?r' = Some y" by (simp add: Let_def)
        with IH pend obtain k where "stops sub (outcome cb k (state ?r'))"
          by blast
        then have "stops sub (outcome cb (Suc k) (state r))"
          by (simp add: r' outcome_Suc)
        then show ?thesis ..
      qed
    qed
  qed
  with assms(2) show ?thesis by simp
qed

lemma loop_diverges:
  assumes "promise r = None" "\<forall>k. \<not> stops sub (outcome cb k (state r))"
  shows "loop cb sub r = None"
proof (cases "loop cb sub r")
  case None
  then show ?thesis .
next
  case (Some y)
  with assms(1) have "\<exists>k. stops sub (outcome cb k (state r))"
    by (rule loop_Some_stops [rotated])
  with assms(2) show ?thesis by simp
qed

lemma first_stop:
  assumes "stops sub (outcome cb k s)"
  obtains n where "stops sub (outcome cb n s)" "\<forall>j<n. \<not> stops sub (outcome cb j s)"
proof -
  let ?n = "LEAST n. stops sub (outcome cb n s)"
  have "stops sub (outcome cb ?n s)" using assms by (rule LeastI)
  moreover have "\<forall>j<?n. \<not> stops sub (outcome cb j s)"
    using not_less_Least by blast
  ultimately show thesis using that by blast
qed

lemma retry_settles:
  assumes "\<forall>j<n. \<not> stops sub (outcome cb j s)" "stops sub (outcome cb n s)"
  shows "retryCommand cb sub s = Some \<lparr>invocations = Suc n, waited = 100 * Suc n,
           promise = Some Fulfilled, state = state_before cb (Suc n) s\<rparr>"
    and "m \<le> n \<Longrightarrow> poll m cb sub (start s) =
           \<lparr>invocations = m, waited = 100 * m, promise = None, state = state_before cb m s\<rparr>"
    and "n < m \<Longrightarrow> poll m cb sub (start s) = \<lparr>invocations = Suc n, waited = 100 * Suc n,
           promise = Some Fulfilled, state = state_before cb (Suc n) s\<rparr>"
proof -
  have p: "promise (start s) = None" and st: "state (start s) = s"
    by (simp_all add: start_def)
  show "retryCommand cb sub s = Some \<lparr>invocations = Suc n, waited = 100 * Suc n,
           promise = Some Fulfilled, state = state_before cb (Suc n) s\<rparr>"
    using loop_resolved [of "start s" n sub cb] assms
    by (simp add: retryCommand_def st p) (simp add: start_def)
  show "poll m cb sub (start s) =
           \<lparr>invocations = m, waited = 100 * m, promise = None, state = state_before cb m s\<rparr>"
    if "m \<le> n"
    using poll_pending [of "start s" m sub cb] assms(1) that
    by (simp add: st p) (simp add: start_def)
  show "poll m cb sub (start s) = \<lparr>invocations = Suc n, waited = 100 * Suc n,
           promise = Some Fulfilled, state = state_before cb (Suc n) s\<rparr>"
    if "n < m"
    using poll_resolved [of "start s" n sub cb m] assms that
    by (simp add: st p) (simp add: start_def)
qed

lemma retry_pending:
  assumes "\<forall>j. \<not> stops sub (outcome cb j s)"
  shows "retryCommand cb sub s = None"
    and "poll m cb sub (start s) =
           \<lparr>invocations = m, waited = 100 * m, promise = None, state = state_before cb m s\<rparr>"
proof -
  have p: "promise (start s) = None" and st: "state (start s) = s"
    by (simp_all add: start_def)
  show "retryCommand cb sub s = None"
    using loop_diverges [of "start s" sub cb] assms by (simp add: retryCommand_def st p)
  show "poll m cb sub (start s) =
           \<lparr>invocations = m, waited = 100 * m, promise = None, state = state_before cb m s\<rparr>"
    using poll_pending [of "start s" m sub cb] assms
    by (simp add: st p) (simp add: start_def)
qed

lemma state_before_scripted: "state_before (scripted script) k s = s + k"
  by (induction k) (simp_all add: state_before_Suc' scripted_def)

lemma state_before_failing: "state_before (failing e) k s = s + k"
  by (induction k) (simp_all add: state_before_Suc' failing_def)

lemma outcome_scripted:
  "outcome (scripted script) k s = (if s + k < length script then script ! (s + k) else Fulfilled)"
  by (simp add: outcome_def state_before_scripted scripted_def)

lemma outcome_failing: "outcome (failing e) k s = Rejected e"
  by (simp add: outcome_def failing_def)

section \<open>Facts about processes and traces\<close>

lemma exec_result:
  "exec execa cmd arguments mode st =
     (fst (execa \<lparr>command = cmd, args = arguments, stdio = mode\<rparr> (world st)),
      st\<lparr>trace := trace st @ [Exec \<lparr>command = cmd, args = arguments, stdio = mode\<rparr>],
         world := snd (execa \<lparr>command = cmd, args = arguments, stdio = mode\<rparr> (world st))\<rparr>)"
  by (simp add: exec_def Let_def split_beta)

lemma sql_statement_execMysql:
  "sql_statement (Exec \<lparr>command = ''docker'', args = execMysql_args v q options, stdio = m\<rparr>) = Some q"
  by (simp add: sql_statement_def execMysql_args_def Let_def split_beta)

lemma sql_statement_Info: "sql_statement (Info msg) = None"
  by (simp add: sql_statement_def)

lemma execMysql_result:
  "execMysql execa v q options st =
     (fst (execa \<lparr>command = ''docker'', args = execMysql_args v q options, stdio = stdio_opt options\<rparr>
             (world st)),
      st\<lparr>trace := trace st @
              [Exec \<lparr>command = ''docker'', args = execMysql_args v q options,
                     stdio = stdio_opt options\<rparr>],
         world := snd (execa \<lparr>command = ''docker'', args = execMysql_args v q options,
                               stdio = stdio_opt options\<rparr> (world st))\<rparr>)"
  by (simp add: execMysql_def exec_result)

lemma execMysql_repeated:
  "trace (state_before (execMysql execa v q options) k st) =
     trace st @ replicate k
       (Exec \<lparr>command = ''docker'', args = execMysql_args v q options, stdio = stdio_opt options\<rparr>)"
proof (induction k)
  case 0
  then show ?case by simp
next
  case (Suc k)
  then show ?case
    by (simp add: state_before_Suc' execMysql_result replicate_append_same)
qed

lemma retry_Some:
  assumes "retryCommand cb sub s = Some r"
  shows "\<exists>n. r = \<lparr>invocations = Suc n, waited = 100 * Suc n, promise = Some Fulfilled,
                  state = state_before cb (Suc n) s\<rparr>"
proof -
  have "loop cb sub (start s) = Some r" "promise (start s) = None"
    using assms by (simp_all add: retryCommand_def start_def)
  then have "\<exists>k. stops sub (outcome cb k (state (start s)))"
    by (rule loop_Some_stops)
  then obtain k where "stops sub (outcome cb k s)"
    by (auto simp add: start_def)
  then obtain n where "stops sub (outcome cb n s)" "\<forall>j<n. \<not> stops sub (outcome cb j s)"
    by (rule first_stop)
  then have "retryCommand cb sub s = Some \<lparr>invocations = Suc n, waited = 100 * Suc n,
      promise = Some Fulfilled, state = state_before cb (Suc n) s\<rparr>"
    by (intro retry_settles(1))
  with assms show ?thesis by auto
qed

lemma await_retry_Some:
  assumes "await_retry (retryCommand cb sub s) = Some (res, s')"
  shows "res = Fulfilled \<and> (\<exists>n. s' = state_before cb (Suc n) s)"
proof (cases "retryCommand cb sub s")
  case None
  with assms show ?thesis by (simp add: await_retry_def)
next
  case (Some r)
  from retry_Some [OF Some] obtain n where n: "r = \<lparr>invocations = Suc n, waited = 100 * Suc n,
      promise = Some Fulfilled, state = state_before cb (Suc n) s\<rparr>" ..
  have "await_retry (Some r) = Some (Fulfilled, state_before cb (Suc n) s)"
    unfolding n by (simp add: await_retry_def)
  with assms Some have "res = Fulfilled" "s' = state_before cb (Suc n) s"
    by simp_all
  then show ?thesis by blast
qed

lemma retry_step_trace:
  assumes "await_retry (retryCommand (execMysql execa v q no_options) sub (console_info msg st))
             = Some (res, st')"
  shows "res = Fulfilled \<and> (\<exists>n. trace st' = trace st @ Info msg #
           replicate (Suc n) (Exec \<lparr>command = ''docker'', args = execMysql_args v q no_options,
                                    stdio = Pipe\<rparr>))"
proof -
  from await_retry_Some [OF assms] obtain n where res: "res = Fulfilled"
    and st': "st' = state_before (execMysql execa v q no_options) (Suc n) (console_info msg st)"
    by (elim conjE exE)
  have pipe: "stdio_opt no_options = Pipe"
    by (simp add: no_options_def)
  have "trace st' = trace (console_info msg st) @
      replicate (Suc n) (Exec \<lparr>command = ''docker'', args = execMysql_args v q no_options,
                              stdio = Pipe\<rparr>)"
    unfolding st' execMysql_repeated pipe ..
  also have "trace (console_info msg st) = trace st @ [Info msg]"
    by (simp add: console_info_def)
  finally have "trace st' = trace st @ Info msg #
      replicate (Suc n) (Exec \<lparr>command = ''docker'', args = execMysql_args v q no_options,
                              stdio = Pipe\<rparr>)"
    by simp
  with res show ?thesis by blast
qed

lemma up_trace:
  "\<exists>ups. trace (snd (up execa v st)) = trace st @ ups \<and> (\<forall>ev\<in>set ups. sql_statement ev = None)"
  by (auto simp add: up_def exec_result Let_def sql_statement_def split: settled.splits)

lemma and_then_Some:
  "and_then m k = Some x \<longleftrightarrow>
     (\<exists>e s. m = Some (Rejected e, s) \<and> x = (Rejected e, s))
     \<or> (\<exists>s. m = Some (Fulfilled, s) \<and> k s = Some x)"
  by (auto simp add: and_then_def split: option.splits settled.splits)

section \<open>Facts about provisioning\<close>

lemma createDatabase_trace:
  assumes "createDatabase execa v name st = Some (res, st')"
  shows "res = Fulfilled \<and> (\<exists>n. trace st' = trace st @ Info (''Creating database '' @ name @ ''...'') #
           replicate (Suc n) (Exec \<lparr>command = ''docker'',
             args = execMysql_args v (''create database '' @ name) no_options, stdio = Pipe\<rparr>))"
  using assms unfolding createDatabase_def by (rule retry_step_trace)

lemma createUser_trace:
  assumes "createUser execa v name pass st = Some (res, st')"
  shows "res = Fulfilled \<and> (\<exists>n. trace st' = trace st @ Info (''Creating user '' @ name @ ''...'') #
           replicate (Suc n) (Exec \<lparr>command = ''docker'',
             args = execMysql_args v
                      (''create user '' @ name @ '' identified by '' @ [CHR 0x27] @ pass @ [CHR 0x27])
                      no_options,
             stdio = Pipe\<rparr>))"
  using assms unfolding createUser_def by (rule retry_step_trace)

lemma grantDatabaseToUser_trace:
  assumes "grantDatabaseToUser execa v user database st = Some (res, st')"
  shows "res = Fulfilled \<and> (\<exists>n. trace st' = trace st @
           Info (''Assign user '' @ user @ '' to database '' @ database @ ''...'') #
           replicate (Suc n) (Exec \<lparr>command = ''docker'',
             args = execMysql_args v (''grant all on '' @ database @ ''.* to '' @ user) no_options,
             stdio = Pipe\<rparr>))"
  using assms unfolding grantDatabaseToUser_def by (rule retry_step_trace)

lemma step_kinds:
  "creates_user (Exec \<lparr>command = ''docker'', args = execMysql_args v q options, stdio = m\<rparr>)
     \<longleftrightarrow> prefix ''create user '' q"
  "grants (Exec \<lparr>command = ''docker'', args = execMysql_args v q options, stdio = m\<rparr>)
     \<longleftrightarrow> prefix ''grant all on '' q"
  "\<not> creates_user (Info msg)" "\<not> grants (Info msg)"
  by (simp_all add: creates_user_def grants_def sql_statement_execMysql sql_statement_Info)

lemma list_ex_replicate: "list_ex P (replicate n x) \<longleftrightarrow> 0 < n \<and> P x"
  by (induction n) auto

lemma no_statement_kinds:
  assumes "sql_statement ev = None"
  shows "\<not> creates_user ev" "\<not> grants ev"
  using assms by (simp_all add: creates_user_def grants_def)

lemma prepare_without_user:
  assumes "\<not> (truthy user \<and> truthy pass)"
  shows "prepare execa v database user pass st =
     and_then (Some (up execa v st)) (\<lambda>st1.
     and_then (createDatabase execa v database st1) (\<lambda>st2.
     Some (Fulfilled, console_info (''Success: mysql is running on port '' @ getPort v) st2)))"
proof -
  have skip: "and_then (Some (Fulfilled, s)) k = k s" for s :: "'a sys" and k
    by (simp add: and_then_def)
  show ?thesis
    using assms unfolding prepare_def Let_def by (simp only: if_False skip)
qed

lemma prepare_with_user:
  assumes "truthy user" "truthy pass"
  shows "prepare execa v database user pass st =
     and_then (Some (up execa v st)) (\<lambda>st1.
     and_then (createDatabase execa v database st1) (\<lambda>st2.
     and_then (createUser execa v (render user) (render pass) st2) (\<lambda>st3.
     and_then (grantDatabaseToUser execa v (render user) database st3) (\<lambda>st4.
     Some (Fulfilled, console_info (''Success: mysql is running on port '' @ getPort v) st4)))))"
  using assms unfolding prepare_def Let_def by simp

lemma prepare_settled:
  fixes execa :: "'w runtime" and v database :: string and user pass :: "string option"
  defines "dbC \<equiv> Exec \<lparr>command = ''docker'',
      args = execMysql_args v (''create database '' @ database) no_options, stdio = Pipe\<rparr>"
  defines "userC \<equiv> Exec \<lparr>command = ''docker'',
      args = execMysql_args v
        (''create user '' @ render user @ '' identified by '' @ [CHR 0x27] @ render pass @ [CHR 0x27])
        no_options, stdio = Pipe\<rparr>"
  defines "grantC \<equiv> Exec \<lparr>command = ''docker'',
      args = execMysql_args v (''grant all on '' @ database @ ''.* to '' @ render user) no_options,
      stdio = Pipe\<rparr>"
  defines "dbI \<equiv> Info (''Creating database '' @ database @ ''...'')"
  defines "userI \<equiv> Info (''Creating user '' @ render user @ ''...'')"
  defines "grantI \<equiv> Info (''Assign user '' @ render user @ '' to database '' @ database @ ''...'')"
  defines "doneI \<equiv> Info (''Success: mysql is running on port '' @ getPort v)"
  assumes run: "prepare execa v database user pass st = Some (res, st')"
  shows "\<exists>ups. trace (snd (up execa v st)) = trace st @ ups
           \<and> (\<forall>ev\<in>set ups. sql_statement ev = None)
           \<and> ((\<exists>e. res = Rejected e \<and> trace st' = trace st @ ups)
              \<or> (res = Fulfilled \<and> \<not> (truthy user \<and> truthy pass)
                  \<and> (\<exists>a. trace st' = trace st @ ups @ dbI # replicate (Suc a) dbC @ [doneI]))
              \<or> (res = Fulfilled \<and> truthy user \<and> truthy pass
                  \<and> (\<exists>a b c. trace st' = trace st @ ups @ dbI # replicate (Suc a) dbC
                        @ userI # replicate (Suc b) userC
                        @ grantI # replicate (Suc c) grantC @ [doneI])))"
proof -
  obtain r1 s1 where up: "up execa v st = (r1, s1)"
    by (cases "up execa v st")
  from up_trace [of execa v st] up obtain ups
    where ups: "trace s1 = trace st @ ups" "\<forall>ev\<in>set ups. sql_statement ev = None"
    by auto
  have goal_up: "trace (snd (up execa v st)) = trace st @ ups"
    using up ups(1) by simp
  show ?thesis
  proof (cases "truthy user \<and> truthy pass")
    case False
    from run have "and_then (Some (r1, s1)) (\<lambda>st1.
        and_then (createDatabase execa v database st1) (\<lambda>st2.
        Some (Fulfilled, console_info (''Success: mysql is running on port '' @ getPort v) st2)))
        = Some (res, st')"
      unfolding prepare_without_user [OF False] up .
    then consider (rejected) e where "r1 = Rejected e" "res = Rejected e" "st' = s1"
      | (created) s2 where "r1 = Fulfilled" "createDatabase execa v database s1 = Some (Fulfilled, s2)"
          "res = Fulfilled" "st' = console_info (''Success: mysql is running on port '' @ getPort v) s2"
      | (odd) e s2 where "createDatabase execa v database s1 = Some (Rejected e, s2)"
      unfolding and_then_Some by auto
    then show ?thesis
    proof cases
      case rejected
      then show ?thesis using goal_up ups by auto
    next
      case created
      from createDatabase_trace [OF created(2)] obtain a
        where "trace s2 = trace s1 @ dbI # replicate (Suc a) dbC"
        unfolding dbI_def dbC_def by blast
      then have "trace st' = trace st @ ups @ dbI # replicate (Suc a) dbC @ [doneI]"
        unfolding created(4) doneI_def ups(1) by (simp add: console_info_def)
      then show ?thesis using goal_up ups(2) created(3) False by blast
    next
      case odd
      from createDatabase_trace [OF odd] show ?thesis by simp
    qed
  next
    case True
    then have t: "truthy user" "truthy pass" by simp_all
    from run have "and_then (Some (r1, s1)) (\<lambda>st1.
        and_then (createDatabase execa v database st1) (\<lambda>st2.
        and_then (createUser execa v (render user) (render pass) st2) (\<lambda>st3.
        and_then (grantDatabaseToUser execa v (render user) database st3) (\<lambda>st4.
        Some (Fulfilled, console_info (''Success: mysql is running on port '' @ getPort v) st4)))))
        = Some (res, st')"
      unfolding prepare_with_user [OF t] up .
    then consider (rejected) e where "r1 = Rejected e" "res = Rejected e" "st' = s1"
      | (created) s2 s3 s4 where "r1 = Fulfilled"
          "createDatabase execa v database s1 = Some (Fulfilled, s2)"
          "createUser execa v (render user) (render pass) s2 = Some (Fulfilled, s3)"
          "grantDatabaseToUser execa v (render user) database s3 = Some (Fulfilled, s4)"
          "res = Fulfilled" "st' = console_info (''Success: mysql is running on port '' @ getPort v) s4"
      | (odd1) e s2 where "createDatabase execa v database s1 = Some (Rejected e, s2)"
      | (odd2) e s2 s3 where "createUser execa v (render user) (render pass) s2 = Some (Rejected e, s3)"
      | (odd3) e s3 s4 where "grantDatabaseToUser execa v (render user) database s3 = Some (Rejected e, s4)"
      unfolding and_then_Some by auto
    then show ?thesis
    proof cases
      case rejected
      then show ?thesis using goal_up ups by auto
    next
      case created
      from createDatabase_trace [OF created(2)] obtain a
        where a: "trace s2 = trace s1 @ dbI # replicate (Suc a) dbC"
        unfolding dbI_def dbC_def by blast
      from createUser_trace [OF created(3)] obtain b
        where b: "trace s3 = trace s2 @ userI # replicate (Suc b) userC"
        unfolding userI_def userC_def by blast
      from grantDatabaseToUser_trace [OF created(4)] obtain c
        where c: "trace s4 = trace s3 @ grantI # replicate (Suc c) grantC"
        unfolding grantI_def grantC_def by blast
      have "trace st' = trace st @ ups @ dbI # replicate (Suc a) dbC
          @ userI # replicate (Suc b) userC @ grantI # replicate (Suc c) grantC @ [doneI]"
        unfolding created(6) doneI_def by (simp add: console_info_def a b c ups(1))
      then show ?thesis using goal_up ups(2) created(5) True by blast
    next
      case odd1
      from createDatabase_trace [OF odd1] show ?thesis by simp
    next
      case odd2
      from createUser_trace [OF odd2] show ?thesis by simp
    next
      case odd3
      from grantDatabaseToUser_trace [OF odd3] show ?thesis by simp
    qed
  qed
qed

lemma retry_first_success:
  assumes "fst (cb s) = Fulfilled"
  shows "await_retry (retryCommand cb sub s) = Some (Fulfilled, snd (cb s))"
proof -
  have "stops sub (outcome cb 0 s)"
    using assms by (simp add: outcome_0 stops_def)
  then have "retryCommand cb sub s = Some \<lparr>invocations = Suc 0, waited = 100 * Suc 0,
      promise = Some Fulfilled, state = state_before cb (Suc 0) s\<rparr>"
    by (intro retry_settles(1)) simp_all
  then show ?thesis
    by (simp add: await_retry_def state_before_Suc')
qed

lemma obliging_step:
  "await_retry (retryCommand (execMysql obliging v q no_options) sub st) =
     Some (Fulfilled, st\<lparr>trace := trace st @
       [Exec \<lparr>command = ''docker'', args = execMysql_args v q no_options, stdio = Pipe\<rparr>]\<rparr>)"
proof -
  have "execMysql obliging v q no_options st =
      (Fulfilled, st\<lparr>trace := trace st @
       [Exec \<lparr>command = ''docker'', args = execMysql_args v q no_options, stdio = Pipe\<rparr>]\<rparr>)"
    by (simp add: execMysql_result obliging_def no_options_def)
  then show ?thesis
    using retry_first_success [of "execMysql obliging v q no_options" st sub] by simp
qed

lemma obliging_up:
  "up obliging v st =
     (Fulfilled, st\<lparr>trace := trace st @
       [Exec \<lparr>command = ''docker'', args = [''start'', getContainerName v], stdio = Pipe\<rparr>]\<rparr>)"
  by (simp add: up_def exec_result obliging_def)

lemma obliging_prepare:
  "prepare obliging v database user pass st =
     Some (Fulfilled, st\<lparr>trace := trace st @
       [Exec \<lparr>command = ''docker'', args = [''start'', getContainerName v], stdio = Pipe\<rparr>,
        Info (''Creating database '' @ database @ ''...''),
        Exec \<lparr>command = ''docker'',
              args = execMysql_args v (''create database '' @ database) no_options, stdio = Pipe\<rparr>]
       @ (if truthy user \<and> truthy pass then
            [Info (''Creating user '' @ render user @ ''...''),
             Exec \<lparr>command = ''docker'',
                   args = execMysql_args v
                     (''create user '' @ render user @ '' identified by '' @ [CHR 0x27] @ render pass
                        @ [CHR 0x27]) no_options,
                   stdio = Pipe\<rparr>,
             Info (''Assign user '' @ render user @ '' to database '' @ database @ ''...''),
             Exec \<lparr>command = ''docker'',
                   args = execMysql_args v
                     (''grant all on '' @ database @ ''.* to '' @ render user) no_options,
                   stdio = Pipe\<rparr>]
          else [])
       @ [Info (''Success: mysql is running on port '' @ getPort v)]\<rparr>)"
  by (simp add: prepare_def createDatabase_def createUser_def grantDatabaseToUser_def
      obliging_up obliging_step and_then_def console_info_def Let_def)

lemma poll_progress:
  "\<exists>k. 0 < k \<and> k \<le> Suc n \<and> invocations (poll (Suc n) cb sub (start s)) = k
       \<and> state (poll (Suc n) cb sub (start s)) = state_before cb k s"
proof (cases "\<exists>j. stops sub (outcome cb j s)")
  case True
  then obtain j where "stops sub (outcome cb j s)" ..
  then obtain m where m: "stops sub (outcome cb m s)" "\<forall>j<m. \<not> stops sub (outcome cb j s)"
    by (rule first_stop)
  note r = retry_settles [OF m(2) m(1)]
  show ?thesis
  proof (cases "Suc n \<le> m")
    case True
    from r(2) [OF True] have "invocations (poll (Suc n) cb sub (start s)) = Suc n"
      "state (poll (Suc n) cb sub (start s)) = state_before cb (Suc n) s"
      by simp_all
    then show ?thesis by (intro exI [of _ "Suc n"]) simp
  next
    case False
    then have less: "m < Suc n" by simp
    from r(3) [OF less] have "invocations (poll (Suc n) cb sub (start s)) = Suc m"
      "state (poll (Suc n) cb sub (start s)) = state_before cb (Suc m) s"
      by simp_all
    then show ?thesis using less by (intro exI [of _ "Suc m"]) simp
  qed
next
  case False
  then have never: "\<forall>j. \<not> stops sub (outcome cb j s)" by simp
  from retry_pending(2) [OF never, of "Suc n"]
  have "invocations (poll (Suc n) cb sub (start s)) = Suc n"
    "state (poll (Suc n) cb sub (start s)) = state_before cb (Suc n) s"
    by simp_all
  then show ?thesis by (intro exI [of _ "Suc n"]) simp
qed

lemma retry_step_started:
  "\<exists>k. 0 < k \<and> trace (state (poll (Suc n) (execMysql execa v q no_options) sub
                               (start (console_info msg st)))) =
       trace st @ Info msg # replicate k
         (Exec \<lparr>command = ''docker'', args = execMysql_args v q no_options, stdio = Pipe\<rparr>)"
proof -
  let ?cb = "execMysql execa v q no_options"
  from poll_progress [of n ?cb sub "console_info msg st"] obtain k
    where k: "0 < k"
      "state (poll (Suc n) ?cb sub (start (console_info msg st))) =
         state_before ?cb k (console_info msg st)"
    by (elim exE conjE)
  have pipe: "stdio_opt no_options = Pipe"
    by (simp add: no_options_def)
  have "trace (state_before ?cb k (console_info msg st)) =
      trace (console_info msg st) @ replicate k
        (Exec \<lparr>command = ''docker'', args = execMysql_args v q no_options, stdio = Pipe\<rparr>)"
    unfolding execMysql_repeated pipe ..
  also have "trace (console_info msg st) = trace st @ [Info msg]"
    by (simp add: console_info_def)
  finally have "trace (state (poll (Suc n) ?cb sub (start (console_info msg st)))) =
      trace st @ Info msg # replicate k
        (Exec \<lparr>command = ''docker'', args = execMysql_args v q no_options, stdio = Pipe\<rparr>)"
    unfolding k(2) by simp
  with k(1) show ?thesis by (intro exI [of _ k]) simp
qed

lemma prepare_after_database:
  assumes "truthy user" "truthy pass"
    and "up execa v st = (Fulfilled, st1)"
    and "createDatabase execa v database st1 = Some (res2, st2)"
  shows "prepare execa v database user pass st =
     and_then (createUser execa v (render user) (render pass) st2) (\<lambda>st3.
     and_then (grantDatabaseToUser execa v (render user) database st3) (\<lambda>st4.
     Some (Fulfilled, console_info (''Success: mysql is running on port '' @ getPort v) st4)))"
proof -
  from createDatabase_trace [OF assms(4)] have "res2 = Fulfilled" by simp
  with assms(4) have db: "createDatabase execa v database st1 = Some (Fulfilled, st2)" by simp
  have skip: "and_then (Some (Fulfilled, s)) k = k s" for s :: "'a sys" and k
    by (simp add: and_then_def)
  show ?thesis
    unfolding prepare_with_user [OF assms(1,2)] assms(3) skip db ..
qed

lemma prepare_completes:
  assumes "truthy user" "truthy pass"
    and "up execa v st = (Fulfilled, st1)"
    and "createDatabase execa v database st1 = Some (res2, st2)"
    and "createUser execa v (render user) (render pass) st2 = Some (res3, st3)"
    and "grantDatabaseToUser execa v (render user) database st3 = Some (res4, st4)"
  shows "prepare execa v database user pass st =
     Some (Fulfilled, console_info (''Success: mysql is running on port '' @ getPort v) st4)"
proof -
  from createUser_trace [OF assms(5)] have "res3 = Fulfilled" by simp
  with assms(5) have u: "createUser execa v (render user) (render pass) st2 = Some (Fulfilled, st3)"
    by simp
  from grantDatabaseToUser_trace [OF assms(6)] have "res4 = Fulfilled" by simp
  with assms(6) have g: "grantDatabaseToUser execa v (render user) database st3 = Some (Fulfilled, st4)"
    by simp
  have skip: "and_then (Some (Fulfilled, s)) k = k s" for s :: "'a sys" and k
    by (simp add: and_then_def)
  show ?thesis
    unfolding prepare_after_database [OF assms(1-4)] u skip g ..
qed

lemma rejecting_hangs:
  assumes "prefix p q" "\<not> matches sub e"
  shows "retryCommand (execMysql (rejecting p e) v q no_options) sub s = None"
proof -
  have "outcome (execMysql (rejecting p e) v q no_options) j s = Rejected e" for j
    using assms(1)
    by (simp add: outcome_def execMysql_result rejecting_def execMysql_args_def Let_def split_beta)
  then have "\<forall>j. \<not> stops sub (outcome (execMysql (rejecting p e) v q no_options) j s)"
    using assms(2) by (simp add: stops_def)
  then show ?thesis by (rule retry_pending(1))
qed

section \<open>Claims about the naming functions\<close>

text \<open>
  Claim C9.  For every version string \<open>v\<close>, \<open>getContainerName v\<close> is the fixed tag
  \<open>docker-mysql-\<close> followed by \<open>v\<close> with every dot replaced by a dash.  The function is
  total (it yields a string for every input, with no error result) and its output is
  determined by the version alone, so two calls with the same version agree.
\<close>

theorem C9_containerName:
  "getContainerName v = ''docker-mysql-'' @ map (\<lambda>c. if c = CHR ''.'' then CHR ''-'' else c) v
   \<and> getContainerName v = containerName_spec v
   \<and> (\<exists>name. getContainerName v = name \<and> length name = 13 + length v \<and> CHR ''.'' \<notin> set name)
   \<and> (\<forall>v'. v' = v \<longrightarrow> getContainerName v' = getContainerName v)"
  by (auto simp add: getContainerName_def containerName_spec_def replace_all_single)

theorem C9_containerName_witness:
  "getContainerName ''8.0.27'' = ''docker-mysql-8-0-27''"
  using C9_containerName [of "''8.0.27''"] by simp

text \<open>
  Claim C5.  \<open>getPort\<close> returns \<open>3306\<close> for the sentinel \<open>latest\<close>; for every other
  version it returns the digit \<open>3\<close> followed by the version without its dots, padded on the
  left with zeros to three characters and cut to its first three characters.  So
  \<open>8.0\<close> gives \<open>3080\<close> and \<open>5.7\<close> gives \<open>3057\<close>, and a version with more than three
  characters besides its dots is cut to the first three without any error.
\<close>

theorem C5_hostPort:
  "getPort ''latest'' = ''3306''
   \<and> (v \<noteq> ''latest'' \<longrightarrow>
        getPort v = CHR ''3'' # take 3 (pad_left 3 (CHR ''0'') (undotted v)))
   \<and> getPort v = hostPort_spec v
   \<and> getPort ''8.0'' = ''3080''
   \<and> getPort ''5.7'' = ''3057''
   \<and> (v \<noteq> ''latest'' \<and> 3 < length (undotted v) \<longrightarrow>
        getPort v = CHR ''3'' # take 3 (undotted v))"
proof -
  have spec: "getPort w = hostPort_spec w" for w
    by (rule getPort_refines)
  have "getPort ''8.0'' = ''3080''" "getPort ''5.7'' = ''3057''" "getPort ''latest'' = ''3306''"
    by (simp_all add: spec hostPort_spec_def pad_left_def undotted_def)
  moreover have "getPort v = CHR ''3'' # take 3 (undotted v)"
    if "v \<noteq> ''latest''" "3 < length (undotted v)"
    using that by (simp add: spec hostPort_spec_def pad_left_def)
  moreover have "getPort v = CHR ''3'' # take 3 (pad_left 3 (CHR ''0'') (undotted v))"
    if "v \<noteq> ''latest''"
    using that by (simp add: spec hostPort_spec_def)
  ultimately show ?thesis
    using spec by blast
qed

theorem C5_hostPort_witness:
  "getPort ''10.11.2'' = ''3101'' \<and> getPort ''8'' = ''3008''"
  using C5_hostPort [of "''10.11.2''"] C5_hostPort [of "''8''"]
  by (simp add: undotted_def pad_left_def numeral_2_eq_2)

section \<open>Claims about the retry loop\<close>

text \<open>
  Claim C1 (as amended).  For every action whose first two invocations fail with errors
  that do not match the acceptable-failure substring (none does when no substring, or the
  empty one, is given) and whose third invocation succeeds, \<open>retryCommand\<close> resolves
  after exactly three invocations, having waited three timer periods; after the first and
  after the second invocation its promise is still pending.
\<close>

theorem C1_retry_third_attempt:
  assumes "cb s0 = (Rejected e1, s1)" "cb s1 = (Rejected e2, s2)" "cb s2 = (Fulfilled, s3)"
    and "\<not> matches successErrorStr e1" "\<not> matches successErrorStr e2"
  shows "retryCommand cb successErrorStr s0 =
           Some \<lparr>invocations = 3, waited = 300, promise = Some Fulfilled, state = s3\<rparr>
         \<and> poll 1 cb successErrorStr (start s0) =
             \<lparr>invocations = 1, waited = 100, promise = None, state = s1\<rparr>
         \<and> poll 2 cb successErrorStr (start s0) =
             \<lparr>invocations = 2, waited = 200, promise = None, state = s2\<rparr>
         \<and> (\<forall>n\<ge>3. poll n cb successErrorStr (start s0) =
             \<lparr>invocations = 3, waited = 300, promise = Some Fulfilled, state = s3\<rparr>)"
proof -
  have sb: "state_before cb 1 s0 = s1" "state_before cb 2 s0 = s2" "state_before cb 3 s0 = s3"
    using assms(1-3) by (simp_all add: state_before_def numeral_2_eq_2 numeral_3_eq_3)
  have o: "outcome cb 0 s0 = Rejected e1" "outcome cb 1 s0 = Rejected e2"
    "outcome cb 2 s0 = Fulfilled"
    using assms(1-3) sb by (simp_all add: outcome_def)
  have early: "\<forall>j<2. \<not> stops successErrorStr (outcome cb j s0)"
  proof (intro allI impI)
    fix j :: nat
    assume "j < 2"
    then have "j = 0 \<or> j = 1" by auto
    then show "\<not> stops successErrorStr (outcome cb j s0)"
      using o assms(4,5) by (auto simp add: stops_def)
  qed
  have third: "stops successErrorStr (outcome cb 2 s0)"
    using o by (simp add: stops_def)
  note r = retry_settles [OF early third]
  have "retryCommand cb successErrorStr s0 =
      Some \<lparr>invocations = 3, waited = 300, promise = Some Fulfilled, state = s3\<rparr>"
    using r(1) sb by (simp add: numeral_3_eq_3 [symmetric])
  moreover have "poll 1 cb successErrorStr (start s0) =
      \<lparr>invocations = 1, waited = 100, promise = None, state = s1\<rparr>"
    using r(2) [of 1] sb by simp
  moreover have "poll 2 cb successErrorStr (start s0) =
      \<lparr>invocations = 2, waited = 200, promise = None, state = s2\<rparr>"
    using r(2) [of 2] sb by simp
  moreover have "poll n cb successErrorStr (start s0) =
      \<lparr>invocations = 3, waited = 300, promise = Some Fulfilled, state = s3\<rparr>" if "3 \<le> n" for n
    using r(3) [of n] sb that by (simp add: numeral_3_eq_3 [symmetric])
  ultimately show ?thesis by blast
qed

theorem C1_retry_third_attempt_witness:
  "retryCommand
     (scripted [Rejected (ExecaError ''Can not connect''), Rejected (ExecaError ''Can not connect''),
                Fulfilled])
     (Some ''database exists'') 0 =
     Some \<lparr>invocations = 3, waited = 300, promise = Some Fulfilled, state = 3\<rparr>"
  using C1_retry_third_attempt
    [of "scripted [Rejected (ExecaError ''Can not connect''),
                   Rejected (ExecaError ''Can not connect''), Fulfilled]"
        0 "ExecaError ''Can not connect''" 1 "ExecaError ''Can not connect''" 2 3
        "Some ''database exists''"]
  by (simp add: scripted_def matches_def)

text \<open>As first stated, C1 speaks of every action that fails twice and then succeeds.  When
  the first failure carries the acceptable substring the loop resolves at once, after one
  invocation and before any invocation has succeeded.\<close>

theorem C1_matching_failure_counterexample:
  "scripted [Rejected (ExecaError ''database exists''), Rejected (ExecaError ''database exists''),
             Fulfilled] 0 = (Rejected (ExecaError ''database exists''), 1)
   \<and> scripted [Rejected (ExecaError ''database exists''), Rejected (ExecaError ''database exists''),
             Fulfilled] 1 = (Rejected (ExecaError ''database exists''), 2)
   \<and> scripted [Rejected (ExecaError ''database exists''), Rejected (ExecaError ''database exists''),
             Fulfilled] 2 = (Fulfilled, 3)
   \<and> retryCommand
       (scripted [Rejected (ExecaError ''database exists''), Rejected (ExecaError ''database exists''),
                  Fulfilled])
       (Some ''database exists'') 0 =
       Some \<lparr>invocations = 1, waited = 100, promise = Some Fulfilled, state = 1\<rparr>"
proof -
  let ?cb = "scripted [Rejected (ExecaError ''database exists''),
    Rejected (ExecaError ''database exists''), Fulfilled]"
  have "stops (Some ''database exists'') (outcome ?cb 0 0)"
    by (simp add: outcome_scripted stops_def matches_def)
  then have "retryCommand ?cb (Some ''database exists'') 0 =
      Some \<lparr>invocations = Suc 0, waited = 100 * Suc 0, promise = Some Fulfilled,
        state = state_before ?cb (Suc 0) 0\<rparr>"
    by (intro retry_settles(1)) simp_all
  then show ?thesis
    by (simp add: state_before_scripted) (simp add: scripted_def)
qed

text \<open>
  Claim C2 (as amended).  For every non-empty acceptable-failure substring, if the first
  invocation of the action fails with an error whose \<open>stderr\<close> contains the substring,
  \<open>retryCommand\<close> resolves successfully after exactly one invocation.
\<close>

theorem C2_acceptable_failure_first_attempt:
  assumes "sub \<noteq> []" "cb s0 = (Rejected e, s1)" "str_includes (stderr e) sub"
  shows "retryCommand cb (Some sub) s0 =
           Some \<lparr>invocations = 1, waited = 100, promise = Some Fulfilled, state = s1\<rparr>"
proof -
  have "stops (Some sub) (outcome cb 0 s0)"
    using assms by (simp add: outcome_0 stops_def matches_def)
  then have "retryCommand cb (Some sub) s0 =
      Some \<lparr>invocations = Suc 0, waited = 100 * Suc 0, promise = Some Fulfilled,
        state = state_before cb (Suc 0) s0\<rparr>"
    by (intro retry_settles(1)) simp_all
  then show ?thesis
    using assms(2) by (simp add: state_before_Suc')
qed

theorem C2_acceptable_failure_first_attempt_witness:
  "retryCommand (failing (ExecaError ''ERROR 1007: database exists'')) (Some ''database exists'') 0 =
     Some \<lparr>invocations = 1, waited = 100, promise = Some Fulfilled, state = 1\<rparr>"
  using C2_acceptable_failure_first_attempt
    [of "''database exists''" "failing (ExecaError ''ERROR 1007: database exists'')" 0
        "ExecaError ''ERROR 1007: database exists''" 1]
  by (simp add: failing_def)

text \<open>As first stated, C2 speaks of every substring.  The empty string is falsy, so the
  handler never tests it: a failure is retried although every \<open>stderr\<close> contains the empty
  string, and here the loop resolves only after the second invocation.\<close>

theorem C2_empty_substring_counterexample:
  "scripted [Rejected (ExecaError ''ERROR 2002''), Fulfilled] 0 = (Rejected (ExecaError ''ERROR 2002''), 1)
   \<and> str_includes (stderr (ExecaError ''ERROR 2002'')) []
   \<and> retryCommand (scripted [Rejected (ExecaError ''ERROR 2002''), Fulfilled]) (Some []) 0 =
       Some \<lparr>invocations = 2, waited = 200, promise = Some Fulfilled, state = 2\<rparr>"
proof -
  let ?cb = "scripted [Rejected (ExecaError ''ERROR 2002''), Fulfilled]"
  have "\<forall>j<1. \<not> stops (Some []) (outcome ?cb j 0)"
    by (simp add: outcome_scripted stops_def matches_def)
  moreover have "stops (Some []) (outcome ?cb 1 0)"
    by (simp add: outcome_scripted stops_def)
  ultimately have "retryCommand ?cb (Some []) 0 =
      Some \<lparr>invocations = Suc 1, waited = 100 * Suc 1, promise = Some Fulfilled,
        state = state_before ?cb (Suc 1) 0\<rparr>"
    by (rule retry_settles(1))
  then show ?thesis
    by (simp add: state_before_scripted) (simp add: scripted_def)
qed

text \<open>
  Claim C3.  For every action whose every invocation fails with an error that does not
  contain the acceptable-failure substring, \<open>retryCommand\<close> never completes.  It retries
  without an attempt limit and without backoff: after \<open>n\<close> timer periods, for every \<open>n\<close>,
  it has made exactly \<open>n\<close> invocations, has waited \<open>100 * n\<close> milliseconds and its
  promise is still pending.
\<close>

theorem C3_retries_forever:
  assumes "\<forall>k. \<exists>e. outcome cb k s0 = Rejected e
             \<and> (\<forall>sub. successErrorStr = Some sub \<longrightarrow> \<not> str_includes (stderr e) sub)"
  shows "retryCommand cb successErrorStr s0 = None
         \<and> (\<forall>n. poll n cb successErrorStr (start s0) =
               \<lparr>invocations = n, waited = 100 * n, promise = None, state = state_before cb n s0\<rparr>)"
proof -
  have never: "\<forall>j. \<not> stops successErrorStr (outcome cb j s0)"
  proof
    fix j
    from assms obtain e where "outcome cb j s0 = Rejected e"
      and "\<forall>sub. successErrorStr = Some sub \<longrightarrow> \<not> str_includes (stderr e) sub"
      by blast
    then show "\<not> stops successErrorStr (outcome cb j s0)"
      by (simp add: stops_def matches_def split: option.splits)
  qed
  show ?thesis
    using retry_pending [OF never] by blast
qed

theorem C3_retries_forever_witness:
  "retryCommand (failing (ExecaError ''Can not connect'')) (Some ''database exists'') 0 = None
   \<and> poll 7 (failing (ExecaError ''Can not connect'')) (Some ''database exists'') (start 0) =
       \<lparr>invocations = 7, waited = 700, promise = None, state = 7\<rparr>"
proof -
  have "\<forall>k. \<exists>e. outcome (failing (ExecaError ''Can not connect'')) k 0 = Rejected e
      \<and> (\<forall>sub. Some ''database exists'' = Some sub \<longrightarrow> \<not> str_includes (stderr e) sub)"
    by (simp add: outcome_failing)
  from C3_retries_forever [OF this] show ?thesis
    by (simp add: state_before_failing)
qed

text \<open>
  Claim C4.  For every action and every optional acceptable-failure substring,
  \<open>retryCommand\<close> never surfaces a failure.  Either it runs for ever, or it resolves
  successfully, and then at an invocation that succeeded or failed with a matching
  error; it runs for ever exactly when no invocation ever does so, and then the \<open>n\<close>-th
  timer period ends with \<open>n\<close> invocations made and the promise pending; at no time is
  its promise rejected.
\<close>

theorem C4_never_rejects:
  "(retryCommand cb successErrorStr s0 = None
      \<or> (\<exists>r. retryCommand cb successErrorStr s0 = Some r \<and> promise r = Some Fulfilled
            \<and> 0 < invocations r
            \<and> stops successErrorStr (outcome cb (invocations r - 1) s0)))
   \<and> (retryCommand cb successErrorStr s0 = None
        \<longleftrightarrow> (\<forall>k. \<not> stops successErrorStr (outcome cb k s0)))
   \<and> (retryCommand cb successErrorStr s0 = None
        \<longrightarrow> (\<forall>n. invocations (poll n cb successErrorStr (start s0)) = n
                \<and> promise (poll n cb successErrorStr (start s0)) = None))
   \<and> (\<forall>n e. promise (poll n cb successErrorStr (start s0)) \<noteq> Some (Rejected e))"
proof (cases "\<exists>k. stops successErrorStr (outcome cb k s0)")
  case True
  then obtain k where "stops successErrorStr (outcome cb k s0)" ..
  then obtain n where n: "stops successErrorStr (outcome cb n s0)"
    "\<forall>j<n. \<not> stops successErrorStr (outcome cb j s0)"
    by (rule first_stop)
  note r = retry_settles [OF n(2) n(1)]
  have polls: "promise (poll m cb successErrorStr (start s0)) \<noteq> Some (Rejected e)" for m e
  proof (cases "m \<le> n")
    case True
    then show ?thesis using r(2) [of m] by simp
  next
    case False
    then show ?thesis using r(3) [of m] by simp
  qed
  show ?thesis
    using r(1) n(1) True polls by auto
next
  case False
  then have never: "\<forall>j. \<not> stops successErrorStr (outcome cb j s0)" by simp
  show ?thesis
    using retry_pending [OF never] never by simp
qed

theorem C4_never_rejects_witness:
  "(\<exists>r. retryCommand (scripted [Rejected (ExecaError ''Can not connect''), Fulfilled]) None 0 = Some r
        \<and> promise r = Some Fulfilled)
   \<and> retryCommand (failing (ExecaError ''Can not connect'')) None 0 = None"
proof -
  have "stops None (outcome (scripted [Rejected (ExecaError ''Can not connect''), Fulfilled]) 1 0)"
    by (simp add: outcome_scripted stops_def)
  moreover have "\<forall>k. \<not> stops None (outcome (failing (ExecaError ''Can not connect'')) k 0)"
    by (simp add: outcome_failing stops_def matches_def)
  ultimately show ?thesis
    using C4_never_rejects
      [of "scripted [Rejected (ExecaError ''Can not connect''), Fulfilled]" None 0]
      C4_never_rejects [of "failing (ExecaError ''Can not connect'')" None 0]
    by blast
qed

section \<open>Claims about the commands\<close>

text \<open>
  Claim C10 (as amended).  \<open>execMysql\<close> substitutes the administrator's credentials, user
  \<open>root\<close> and the fixed root password, if and only if both the user name and the password
  are absent.  When exactly one of the two is given no default is applied: the given one is
  passed on as it is and the missing one stays undefined, which the template literal writes
  into the invocation as the text \<open>undefined\<close> (\<open>MYSQL_PWD=undefined\<close> or
  \<open>--user=undefined\<close>).  The arguments are those of the one \<open>docker exec\<close> that is run.
\<close>

theorem C10_default_credentials:
  fixes execa :: "'w runtime" and v statement :: string and options :: mysql_options
    and st :: "'w sys"
  defines "sent \<equiv> execMysql_args v statement options"
  defines "database \<equiv> (if truthy (databaseName options) then render (databaseName options) else [])"
  shows "(userName options = None \<and> password options = None \<longrightarrow>
            sent = [''exec'', ''--env'', ''MYSQL_PWD=docker-mysql-root-password'',
                    getContainerName v, ''mysql'', ''--user=root'', database, ''-e'', statement])
         \<and> (\<not> (userName options = None \<and> password options = None) \<longrightarrow>
            sent = [''exec'', ''--env'', ''MYSQL_PWD='' @ render (password options),
                    getContainerName v, ''mysql'', ''--user='' @ render (userName options),
                    database, ''-e'', statement])
         \<and> (\<forall>u. userName options = Some u \<and> password options = None \<longrightarrow>
               sent ! 2 = ''MYSQL_PWD=undefined'' \<and> sent ! 5 = ''--user='' @ u)
         \<and> (\<forall>p. userName options = None \<and> password options = Some p \<longrightarrow>
               sent ! 2 = ''MYSQL_PWD='' @ p \<and> sent ! 5 = ''--user=undefined'')
         \<and> trace (snd (execMysql execa v statement options st)) =
             trace st @ [Exec \<lparr>command = ''docker'', args = sent, stdio = stdio_opt options\<rparr>]"
  unfolding sent_def database_def
  by (auto simp add: execMysql_args_def execMysql_def exec_result mysqlRootPassword_def
      render_def Let_def)

theorem C10_default_credentials_witness:
  "execMysql_args ''8.0'' ''show databases'' no_options =
     [''exec'', ''--env'', ''MYSQL_PWD=docker-mysql-root-password'', ''docker-mysql-8-0'', ''mysql'',
      ''--user=root'', [], ''-e'', ''show databases'']
   \<and> execMysql_args ''8.0'' ''show databases''
       \<lparr>userName = Some ''app'', password = Some ''secret'', databaseName = Some ''shop'',
        stdio_opt = Inherit\<rparr> =
     [''exec'', ''--env'', ''MYSQL_PWD=secret'', ''docker-mysql-8-0'', ''mysql'',
      ''--user=app'', ''shop'', ''-e'', ''show databases'']"
proof -
  have name: "getContainerName ''8.0'' = ''docker-mysql-8-0''"
    by (simp add: getContainerName_def replace_all_def)
  show ?thesis
    using C10_default_credentials
        [where v = "''8.0''" and statement = "''show databases''" and options = no_options
          and execa = "obliging :: unit runtime" and st = "\<lparr>trace = [], world = ()\<rparr>"]
      C10_default_credentials
        [where execa = "obliging :: unit runtime" and st = "\<lparr>trace = [], world = ()\<rparr>"
          and v = "''8.0''" and statement = "''show databases''" and options =
          "\<lparr>userName = Some ''app'', password = Some ''secret'', databaseName = Some ''shop'',
            stdio_opt = Inherit\<rparr>"]
    by (simp add: name no_options_def truthy_def render_def)
qed

text \<open>As first stated, C10 says that the missing credential remains unset in the
  invocation.  With only a user name the invocation sets \<open>MYSQL_PWD\<close> to the text
  \<open>undefined\<close>; with only a password it logs in as the user \<open>undefined\<close>.\<close>

theorem C10_missing_credential_counterexample:
  "execMysql_args ''8.0'' ''show databases''
     \<lparr>userName = Some ''app'', password = None, databaseName = None, stdio_opt = Pipe\<rparr> =
     [''exec'', ''--env'', ''MYSQL_PWD=undefined'', ''docker-mysql-8-0'', ''mysql'',
      ''--user=app'', [], ''-e'', ''show databases'']
   \<and> execMysql_args ''8.0'' ''show databases''
     \<lparr>userName = None, password = Some ''secret'', databaseName = None, stdio_opt = Pipe\<rparr> =
     [''exec'', ''--env'', ''MYSQL_PWD=secret'', ''docker-mysql-8-0'', ''mysql'',
      ''--user=undefined'', [], ''-e'', ''show databases'']"
  by (simp add: execMysql_args_def getContainerName_def replace_all_def render_def truthy_def)

text \<open>
  Claim C7.  \<open>up\<close> first runs \<open>docker start\<close> on the container named
  \<open>getContainerName v\<close>.  If that succeeds nothing else is run.  If it fails, whatever the
  error, the failure is dropped and \<open>docker run\<close> creates a container of that name, with
  the fixed root password in its environment, the port \<open>getPort v\<close> published to 3306 and
  the volume \<open>getContainerName v\<close> mounted; the result of \<open>up\<close> is then that of
  \<open>docker run\<close>.
\<close>

theorem C7_up:
  fixes execa :: "'w runtime" and v :: string and st :: "'w sys"
  defines "name \<equiv> getContainerName v"
  defines "starting \<equiv> \<lparr>command = ''docker'', args = [''start'', name], stdio = Pipe\<rparr>"
  defines "creating \<equiv> \<lparr>command = ''docker'',
      args = [''run'', ''--name'', name,
              ''--env'', ''MYSQL_ROOT_PASSWORD=docker-mysql-root-password'',
              ''--publish'', getPort v @ '':3306'',
              ''--volume'', name @ '':/var/lib/mysql'',
              ''-d'', ''mysql:'' @ v],
      stdio = Inherit\<rparr>"
  defines "w1 \<equiv> snd (execa starting (world st))"
  shows "(fst (execa starting (world st)) = Fulfilled \<longrightarrow>
            up execa v st = (Fulfilled, st\<lparr>trace := trace st @ [Exec starting], world := w1\<rparr>))
         \<and> (\<forall>e. fst (execa starting (world st)) = Rejected e \<longrightarrow>
            up execa v st =
              (fst (execa creating w1),
               st\<lparr>trace := trace st @ [Exec starting, Exec creating],
                  world := snd (execa creating w1)\<rparr>))"
  unfolding name_def starting_def creating_def w1_def
  by (simp add: up_def exec_result mysqlRootPassword_def Let_def)

theorem C7_up_witness:
  "up without_container ''8.0'' \<lparr>trace = [], world = ()\<rparr> =
     (Fulfilled,
      \<lparr>trace = [Exec \<lparr>command = ''docker'', args = [''start'', ''docker-mysql-8-0''], stdio = Pipe\<rparr>,
                Exec \<lparr>command = ''docker'',
                      args = [''run'', ''--name'', ''docker-mysql-8-0'',
                              ''--env'', ''MYSQL_ROOT_PASSWORD=docker-mysql-root-password'',
                              ''--publish'', ''3080:3306'',
                              ''--volume'', ''docker-mysql-8-0:/var/lib/mysql'',
                              ''-d'', ''mysql:8.0''],
                      stdio = Inherit\<rparr>],
       world = ()\<rparr>)
   \<and> up obliging ''8.0'' \<lparr>trace = [], world = ()\<rparr> =
     (Fulfilled,
      \<lparr>trace = [Exec \<lparr>command = ''docker'', args = [''start'', ''docker-mysql-8-0''], stdio = Pipe\<rparr>],
       world = ()\<rparr>)"
proof -
  have name: "getContainerName ''8.0'' = ''docker-mysql-8-0''"
    by (simp add: getContainerName_def replace_all_def)
  have port: "getPort ''8.0'' = ''3080''"
    by (simp add: getPort_refines hostPort_spec_def pad_left_def undotted_def)
  show ?thesis
    using C7_up [of "without_container :: unit runtime" "''8.0''" "\<lparr>trace = [], world = ()\<rparr>"]
      C7_up [of "obliging :: unit runtime" "''8.0''" "\<lparr>trace = [], world = ()\<rparr>"]
    by (simp add: name port without_container_def obliging_def)
qed

text \<open>
  Claim C6 (as amended).  With a user name and a password that are both given and not
  empty, \<open>prepare\<close> is the sequence container-up, database-create, user-creation, grant,
  report.  Once the container-up step has succeeded and the database-create step has
  completed it goes on to the user-creation step, whose statement is executed as soon as
  the first timer period has passed, whether or not that step ever completes; once the
  user-creation step has completed it goes on to the grant step in the same way, and once
  that has completed \<open>prepare\<close> fulfils.  When either option is absent or empty,
  \<open>prepare\<close> is exactly the program that brings the container up, then creates the
  database, then reports the port: no settled run of it executes a user-creation or a
  grant statement, and a completed run consists of the commands of \<open>up\<close> followed by the
  database-creation attempts.  So a completed run has executed a user-creation statement,
  and likewise a grant statement, if and only if both options were given and not empty.
  A rejected container-up step ends \<open>prepare\<close> with that rejection, and a database-create
  step that never completes leaves it pending, with or without the options.
\<close>

theorem C6_prepare_user_steps:
  fixes execa :: "'w runtime" and v database :: string and user pass :: "string option"
    and st st' :: "'w sys"
  shows
    "(prepare execa v database user pass st = Some (Fulfilled, st') \<longrightarrow>
        (list_ex creates_user (drop (length (trace st)) (trace st')) \<longleftrightarrow> truthy user \<and> truthy pass)
      \<and> (list_ex grants (drop (length (trace st)) (trace st')) \<longleftrightarrow> truthy user \<and> truthy pass))
     \<and> (\<not> (truthy user \<and> truthy pass) \<longrightarrow>
          prepare execa v database user pass st =
            and_then (Some (up execa v st)) (\<lambda>st1.
            and_then (createDatabase execa v database st1) (\<lambda>st2.
            Some (Fulfilled,
              console_info (''Success: mysql is running on port '' @ getPort v) st2)))
        \<and> (\<forall>res s. prepare execa v database user pass st = Some (res, s) \<longrightarrow>
              \<not> list_ex creates_user (drop (length (trace st)) (trace s))
              \<and> \<not> list_ex grants (drop (length (trace st)) (trace s)))
        \<and> (\<forall>s. prepare execa v database user pass st = Some (Fulfilled, s) \<longrightarrow>
              (\<exists>n. trace s = trace (snd (up execa v st))
                 @ Info (''Creating database '' @ database @ ''...'')
                 # replicate (Suc n) (Exec \<lparr>command = ''docker'',
                     args = execMysql_args v (''create database '' @ database) no_options,
                     stdio = Pipe\<rparr>)
                 @ [Info (''Success: mysql is running on port '' @ getPort v)])))
     \<and> (truthy user \<and> truthy pass \<longrightarrow>
          prepare execa v database user pass st =
            and_then (Some (up execa v st)) (\<lambda>st1.
            and_then (createDatabase execa v database st1) (\<lambda>st2.
            and_then (createUser execa v (render user) (render pass) st2) (\<lambda>st3.
            and_then (grantDatabaseToUser execa v (render user) database st3) (\<lambda>st4.
            Some (Fulfilled, console_info (''Success: mysql is running on port '' @ getPort v) st4)))))
        \<and> (\<forall>st1 res2 st2.
              up execa v st = (Fulfilled, st1)
              \<and> createDatabase execa v database st1 = Some (res2, st2) \<longrightarrow>
              prepare execa v database user pass st =
               and_then (createUser execa v (render user) (render pass) st2) (\<lambda>st3.
               and_then (grantDatabaseToUser execa v (render user) database st3) (\<lambda>st4.
               Some (Fulfilled, console_info (''Success: mysql is running on port '' @ getPort v) st4)))
            \<and> (\<forall>n. \<exists>k>0.
                 trace (state (poll (Suc n) (execMysql execa v (''create user '' @ render user @ '' identified by '' @ [CHR 0x27]
                        @ render pass @ [CHR 0x27]) no_options)
                                (Some ''ERROR 1396'')
                                (start (console_info (''Creating user '' @ render user @ ''...'') st2)))) =
                 trace st2 @ Info (''Creating user '' @ render user @ ''...'')
                   # replicate k (Exec \<lparr>command = ''docker'',
                   args = execMysql_args v
                     (''create user '' @ render user @ '' identified by '' @ [CHR 0x27]
                        @ render pass @ [CHR 0x27]) no_options,
                   stdio = Pipe\<rparr>))
            \<and> (\<forall>res3 st3.
                  createUser execa v (render user) (render pass) st2 = Some (res3, st3) \<longrightarrow>
                  (\<forall>n. \<exists>k>0.
                 trace (state (poll (Suc n) (execMysql execa v (''grant all on '' @ database @ ''.* to '' @ render user) no_options)
                                None
                                (start (console_info
                                   (''Assign user '' @ render user @ '' to database '' @ database @ ''...'')
                                   st3)))) =
                 trace st3 @ Info (''Assign user '' @ render user @ '' to database '' @ database @ ''...'')
                   # replicate k (Exec \<lparr>command = ''docker'',
                   args = execMysql_args v
                     (''grant all on '' @ database @ ''.* to '' @ render user) no_options,
                   stdio = Pipe\<rparr>))
                \<and> (\<forall>res4 st4.
                      grantDatabaseToUser execa v (render user) database st3 = Some (res4, st4) \<longrightarrow>
                      prepare execa v database user pass st =
                        Some (Fulfilled, console_info (''Success: mysql is running on port '' @ getPort v) st4)))))
     \<and> (\<forall>e st1. up execa v st = (Rejected e, st1) \<longrightarrow>
          prepare execa v database user pass st = Some (Rejected e, st1))
     \<and> (\<forall>st1. up execa v st = (Fulfilled, st1) \<and> createDatabase execa v database st1 = None \<longrightarrow>
          prepare execa v database user pass st = None)"
proof -
  have kinds: "(list_ex creates_user (drop (length (trace st)) (trace s)) \<longleftrightarrow>
        res = Fulfilled \<and> truthy user \<and> truthy pass)
      \<and> (list_ex grants (drop (length (trace st)) (trace s)) \<longleftrightarrow>
        res = Fulfilled \<and> truthy user \<and> truthy pass)"
    if run: "prepare execa v database user pass st = Some (res, s)" for res s
  proof -
    from prepare_settled [OF run] obtain ups where
      quiet: "\<forall>ev\<in>set ups. sql_statement ev = None" and
      shape: "(\<exists>e. res = Rejected e \<and> trace s = trace st @ ups)
        \<or> (res = Fulfilled \<and> \<not> (truthy user \<and> truthy pass)
            \<and> (\<exists>a. trace s = trace st @ ups
                 @ Info (''Creating database '' @ database @ ''...'')
                 # replicate (Suc a) (Exec \<lparr>command = ''docker'',
                     args = execMysql_args v (''create database '' @ database) no_options,
                     stdio = Pipe\<rparr>)
                 @ [Info (''Success: mysql is running on port '' @ getPort v)]))
        \<or> (res = Fulfilled \<and> truthy user \<and> truthy pass
            \<and> (\<exists>a b c. trace s = trace st @ ups
                 @ Info (''Creating database '' @ database @ ''...'')
                 # replicate (Suc a) (Exec \<lparr>command = ''docker'',
                     args = execMysql_args v (''create database '' @ database) no_options,
                     stdio = Pipe\<rparr>)
                 @ Info (''Creating user '' @ render user @ ''...'')
                 # replicate (Suc b) (Exec \<lparr>command = ''docker'',
                     args = execMysql_args v
                       (''create user '' @ render user @ '' identified by '' @ [CHR 0x27]
                          @ render pass @ [CHR 0x27]) no_options,
                     stdio = Pipe\<rparr>)
                 @ Info (''Assign user '' @ render user @ '' to database '' @ database @ ''...'')
                 # replicate (Suc c) (Exec \<lparr>command = ''docker'',
                     args = execMysql_args v
                       (''grant all on '' @ database @ ''.* to '' @ render user) no_options,
                     stdio = Pipe\<rparr>)
                 @ [Info (''Success: mysql is running on port '' @ getPort v)]))"
      by blast
    have ups: "\<not> list_ex creates_user ups" "\<not> list_ex grants ups"
      using quiet no_statement_kinds by (auto simp add: list_ex_iff)
    from shape show ?thesis
    proof (elim disjE conjE exE)
      fix e
      assume "res = Rejected e" "trace s = trace st @ ups"
      then show ?thesis using ups by simp
    next
      fix a
      assume "res = Fulfilled" "\<not> (truthy user \<and> truthy pass)"
        "trace s = trace st @ ups
                 @ Info (''Creating database '' @ database @ ''...'')
                 # replicate (Suc a) (Exec \<lparr>command = ''docker'',
                     args = execMysql_args v (''create database '' @ database) no_options,
                     stdio = Pipe\<rparr>)
                 @ [Info (''Success: mysql is running on port '' @ getPort v)]"
      then show ?thesis
        using ups by (simp add: list_ex_replicate step_kinds)
    next
      fix a b c
      assume "res = Fulfilled" "truthy user" "truthy pass"
        "trace s = trace st @ ups
                 @ Info (''Creating database '' @ database @ ''...'')
                 # replicate (Suc a) (Exec \<lparr>command = ''docker'',
                     args = execMysql_args v (''create database '' @ database) no_options,
                     stdio = Pipe\<rparr>)
                 @ Info (''Creating user '' @ render user @ ''...'')
                 # replicate (Suc b) (Exec \<lparr>command = ''docker'',
                     args = execMysql_args v
                       (''create user '' @ render user @ '' identified by '' @ [CHR 0x27]
                          @ render pass @ [CHR 0x27]) no_options,
                     stdio = Pipe\<rparr>)
                 @ Info (''Assign user '' @ render user @ '' to database '' @ database @ ''...'')
                 # replicate (Suc c) (Exec \<lparr>command = ''docker'',
                     args = execMysql_args v
                       (''grant all on '' @ database @ ''.* to '' @ render user) no_options,
                     stdio = Pipe\<rparr>)
                 @ [Info (''Success: mysql is running on port '' @ getPort v)]"
      then show ?thesis
        using ups by (simp add: list_ex_replicate step_kinds)
    qed
  qed
  have order: "\<exists>n. trace s = trace (snd (up execa v st))
                 @ Info (''Creating database '' @ database @ ''...'')
                 # replicate (Suc n) (Exec \<lparr>command = ''docker'',
                     args = execMysql_args v (''create database '' @ database) no_options,
                     stdio = Pipe\<rparr>)
                 @ [Info (''Success: mysql is running on port '' @ getPort v)]"
    if run: "prepare execa v database user pass st = Some (Fulfilled, s)"
      and none: "\<not> (truthy user \<and> truthy pass)" for s
    using prepare_settled [OF run] none by auto
  have settled: "(prepare execa v database user pass st = Some (Fulfilled, st') \<longrightarrow>
        (list_ex creates_user (drop (length (trace st)) (trace st')) \<longleftrightarrow> truthy user \<and> truthy pass)
      \<and> (list_ex grants (drop (length (trace st)) (trace st')) \<longleftrightarrow> truthy user \<and> truthy pass))
     \<and> (\<not> (truthy user \<and> truthy pass) \<longrightarrow>
          prepare execa v database user pass st =
            and_then (Some (up execa v st)) (\<lambda>st1.
            and_then (createDatabase execa v database st1) (\<lambda>st2.
            Some (Fulfilled,
              console_info (''Success: mysql is running on port '' @ getPort v) st2)))
        \<and> (\<forall>res s. prepare execa v database user pass st = Some (res, s) \<longrightarrow>
              \<not> list_ex creates_user (drop (length (trace st)) (trace s))
              \<and> \<not> list_ex grants (drop (length (trace st)) (trace s)))
        \<and> (\<forall>s. prepare execa v database user pass st = Some (Fulfilled, s) \<longrightarrow>
              (\<exists>n. trace s = trace (snd (up execa v st))
                 @ Info (''Creating database '' @ database @ ''...'')
                 # replicate (Suc n) (Exec \<lparr>command = ''docker'',
                     args = execMysql_args v (''create database '' @ database) no_options,
                     stdio = Pipe\<rparr>)
                 @ [Info (''Success: mysql is running on port '' @ getPort v)])))"
    using kinds order prepare_without_user [of user pass execa v database st] by blast
  have with_user: "(truthy user \<and> truthy pass \<longrightarrow>
          prepare execa v database user pass st =
            and_then (Some (up execa v st)) (\<lambda>st1.
            and_then (createDatabase execa v database st1) (\<lambda>st2.
            and_then (createUser execa v (render user) (render pass) st2) (\<lambda>st3.
            and_then (grantDatabaseToUser execa v (render user) database st3) (\<lambda>st4.
            Some (Fulfilled, console_info (''Success: mysql is running on port '' @ getPort v) st4)))))
        \<and> (\<forall>st1 res2 st2.
              up execa v st = (Fulfilled, st1)
              \<and> createDatabase execa v database st1 = Some (res2, st2) \<longrightarrow>
              prepare execa v database user pass st =
               and_then (createUser execa v (render user) (render pass) st2) (\<lambda>st3.
               and_then (grantDatabaseToUser execa v (render user) database st3) (\<lambda>st4.
               Some (Fulfilled, console_info (''Success: mysql is running on port '' @ getPort v) st4)))
            \<and> (\<forall>n. \<exists>k>0.
                 trace (state (poll (Suc n) (execMysql execa v (''create user '' @ render user @ '' identified by '' @ [CHR 0x27]
                        @ render pass @ [CHR 0x27]) no_options)
                                (Some ''ERROR 1396'')
                                (start (console_info (''Creating user '' @ render user @ ''...'') st2)))) =
                 trace st2 @ Info (''Creating user '' @ render user @ ''...'')
                   # replicate k (Exec \<lparr>command = ''docker'',
                   args = execMysql_args v
                     (''create user '' @ render user @ '' identified by '' @ [CHR 0x27]
                        @ render pass @ [CHR 0x27]) no_options,
                   stdio = Pipe\<rparr>))
            \<and> (\<forall>res3 st3.
                  createUser execa v (render user) (render pass) st2 = Some (res3, st3) \<longrightarrow>
                  (\<forall>n. \<exists>k>0.
                 trace (state (poll (Suc n) (execMysql execa v (''grant all on '' @ database @ ''.* to '' @ render user) no_options)
                                None
                                (start (console_info
                                   (''Assign user '' @ render user @ '' to database '' @ database @ ''...'')
                                   st3)))) =
                 trace st3 @ Info (''Assign user '' @ render user @ '' to database '' @ database @ ''...'')
                   # replicate k (Exec \<lparr>command = ''docker'',
                   args = execMysql_args v
                     (''grant all on '' @ database @ ''.* to '' @ render user) no_options,
                   stdio = Pipe\<rparr>))
                \<and> (\<forall>res4 st4.
                      grantDatabaseToUser execa v (render user) database st3 = Some (res4, st4) \<longrightarrow>
                      prepare execa v database user pass st =
                        Some (Fulfilled, console_info (''Success: mysql is running on port '' @ getPort v) st4)))))"
  proof (intro impI conjI allI; (elim conjE)?)
    assume "truthy user" "truthy pass"
    then show "prepare execa v database user pass st =
            and_then (Some (up execa v st)) (\<lambda>st1.
            and_then (createDatabase execa v database st1) (\<lambda>st2.
            and_then (createUser execa v (render user) (render pass) st2) (\<lambda>st3.
            and_then (grantDatabaseToUser execa v (render user) database st3) (\<lambda>st4.
            Some (Fulfilled, console_info (''Success: mysql is running on port '' @ getPort v) st4)))))"
      by (rule prepare_with_user)
  next
    fix st1 res2 st2
    assume "truthy user" "truthy pass" "up execa v st = (Fulfilled, st1)"
      "createDatabase execa v database st1 = Some (res2, st2)"
    then show "prepare execa v database user pass st =
               and_then (createUser execa v (render user) (render pass) st2) (\<lambda>st3.
               and_then (grantDatabaseToUser execa v (render user) database st3) (\<lambda>st4.
               Some (Fulfilled, console_info (''Success: mysql is running on port '' @ getPort v) st4)))"
      by (rule prepare_after_database)
  next
    fix st1 res2 st2 n
    show "\<exists>k>0.
                 trace (state (poll (Suc n) (execMysql execa v (''create user '' @ render user @ '' identified by '' @ [CHR 0x27]
                        @ render pass @ [CHR 0x27]) no_options)
                                (Some ''ERROR 1396'')
                                (start (console_info (''Creating user '' @ render user @ ''...'') st2)))) =
                 trace st2 @ Info (''Creating user '' @ render user @ ''...'')
                   # replicate k (Exec \<lparr>command = ''docker'',
                   args = execMysql_args v
                     (''create user '' @ render user @ '' identified by '' @ [CHR 0x27]
                        @ render pass @ [CHR 0x27]) no_options,
                   stdio = Pipe\<rparr>)"
      by (rule retry_step_started)
  next
    fix st3 n
    show "\<exists>k>0.
                 trace (state (poll (Suc n) (execMysql execa v (''grant all on '' @ database @ ''.* to '' @ render user) no_options)
                                None
                                (start (console_info
                                   (''Assign user '' @ render user @ '' to database '' @ database @ ''...'')
                                   st3)))) =
                 trace st3 @ Info (''Assign user '' @ render user @ '' to database '' @ database @ ''...'')
                   # replicate k (Exec \<lparr>command = ''docker'',
                   args = execMysql_args v
                     (''grant all on '' @ database @ ''.* to '' @ render user) no_options,
                   stdio = Pipe\<rparr>)"
      by (rule retry_step_started)
  next
    fix st1 res2 st2 res3 st3 res4 st4
    assume "truthy user" "truthy pass" "up execa v st = (Fulfilled, st1)"
      "createDatabase execa v database st1 = Some (res2, st2)"
      "createUser execa v (render user) (render pass) st2 = Some (res3, st3)"
      "grantDatabaseToUser execa v (render user) database st3 = Some (res4, st4)"
    then show "prepare execa v database user pass st =
                        Some (Fulfilled, console_info (''Success: mysql is running on port '' @ getPort v) st4)"
      by (rule prepare_completes)
  qed
  have stopped: "(\<forall>e st1. up execa v st = (Rejected e, st1) \<longrightarrow>
          prepare execa v database user pass st = Some (Rejected e, st1))
     \<and> (\<forall>st1. up execa v st = (Fulfilled, st1) \<and> createDatabase execa v database st1 = None \<longrightarrow>
          prepare execa v database user pass st = None)"
    by (simp add: prepare_def and_then_def)
  from conjI [OF settled conjI [OF with_user stopped]] show ?thesis
    by (simp only: conj_assoc)
qed

theorem C6_prepare_user_steps_witness:
  "(\<exists>s. prepare obliging ''8.0'' ''shop'' (Some ''app'') (Some ''secret'') \<lparr>trace = [], world = ()\<rparr>
           = Some (Fulfilled, s)
        \<and> list_ex creates_user (trace s) \<and> list_ex grants (trace s))
   \<and> (\<exists>s. prepare obliging ''8.0'' ''shop'' None None \<lparr>trace = [], world = ()\<rparr>
           = Some (Fulfilled, s)
        \<and> \<not> list_ex creates_user (trace s) \<and> \<not> list_ex grants (trace s))
   \<and> (\<exists>st1 st2 st3 st4.
         up obliging ''8.0'' \<lparr>trace = [], world = ()\<rparr> = (Fulfilled, st1)
       \<and> createDatabase obliging ''8.0'' ''shop'' st1 = Some (Fulfilled, st2)
       \<and> createUser obliging ''8.0'' ''app'' ''secret'' st2 = Some (Fulfilled, st3)
       \<and> grantDatabaseToUser obliging ''8.0'' ''app'' ''shop'' st3 = Some (Fulfilled, st4)
       \<and> prepare obliging ''8.0'' ''shop'' (Some ''app'') (Some ''secret'') \<lparr>trace = [], world = ()\<rparr>
           = Some (Fulfilled, console_info (''Success: mysql is running on port '' @ getPort ''8.0'') st4))"
proof -
  note claim = C6_prepare_user_steps [of "obliging :: unit runtime" "''8.0''" "''shop''" _ _
      "\<lparr>trace = [], world = ()\<rparr>"]
  obtain s where s: "prepare obliging ''8.0'' ''shop'' (Some ''app'') (Some ''secret'')
      \<lparr>trace = [], world = ()\<rparr> = Some (Fulfilled, s)"
    by (simp add: obliging_prepare)
  obtain s' where s': "prepare obliging ''8.0'' ''shop'' None None
      \<lparr>trace = [], world = ()\<rparr> = Some (Fulfilled, s')"
    by (simp add: obliging_prepare)
  have "list_ex creates_user (trace s) \<and> list_ex grants (trace s)"
    using claim [of "Some ''app''" "Some ''secret''" s] s
    by (simp add: truthy_def)
  moreover have "\<not> list_ex creates_user (trace s') \<and> \<not> list_ex grants (trace s')"
    using claim [of None None s'] s'
    by (simp add: truthy_def)
  moreover have "\<exists>st1 st2 st3 st4.
         up obliging ''8.0'' \<lparr>trace = [], world = ()\<rparr> = (Fulfilled, st1)
       \<and> createDatabase obliging ''8.0'' ''shop'' st1 = Some (Fulfilled, st2)
       \<and> createUser obliging ''8.0'' ''app'' ''secret'' st2 = Some (Fulfilled, st3)
       \<and> grantDatabaseToUser obliging ''8.0'' ''app'' ''shop'' st3 = Some (Fulfilled, st4)
       \<and> prepare obliging ''8.0'' ''shop'' (Some ''app'') (Some ''secret'') \<lparr>trace = [], world = ()\<rparr>
           = Some (Fulfilled, console_info (''Success: mysql is running on port '' @ getPort ''8.0'') st4)"
  proof -
    obtain st1 :: "unit sys" where u: "up obliging ''8.0'' \<lparr>trace = [], world = ()\<rparr> = (Fulfilled, st1)"
      by (simp add: obliging_up)
    obtain st2 where d: "createDatabase obliging ''8.0'' ''shop'' st1 = Some (Fulfilled, st2)"
      by (simp add: createDatabase_def obliging_step)
    have t: "truthy (Some ''app'') \<and> truthy (Some ''secret'')"
      by (simp add: truthy_def)
    have r: "render (Some ''app'') = ''app''" "render (Some ''secret'') = ''secret''"
      by (simp_all add: render_def)
    obtain st3 where c: "createUser obliging ''8.0'' (render (Some ''app'')) (render (Some ''secret'')) st2
        = Some (Fulfilled, st3)"
      by (simp add: createUser_def obliging_step)
    obtain st4 where g: "grantDatabaseToUser obliging ''8.0'' (render (Some ''app'')) ''shop'' st3
        = Some (Fulfilled, st4)"
      by (simp add: grantDatabaseToUser_def obliging_step)
    note after_database = claim [of "Some ''app''" "Some ''secret''" s, THEN conjunct2, THEN conjunct2,
        THEN conjunct1, THEN mp, OF t, THEN conjunct2, THEN spec, THEN spec, THEN spec, THEN mp,
        OF conjI [OF u d]]
    note after_user = after_database [THEN conjunct2, THEN conjunct2, THEN spec, THEN spec,
        THEN mp, OF c]
    note complete = after_user [THEN conjunct2, THEN spec, THEN spec, THEN mp, OF g]
    from complete have "prepare obliging ''8.0'' ''shop'' (Some ''app'') (Some ''secret'')
        \<lparr>trace = [], world = ()\<rparr>
        = Some (Fulfilled, console_info (''Success: mysql is running on port '' @ getPort ''8.0'') st4)" .
    with u d c g show ?thesis unfolding r by blast
  qed
  ultimately show ?thesis using s s' by blast
qed

text \<open>As first stated, C6 makes the user steps depend only on the two options being
  supplied.  Four runs with both options supplied show what that leaves out.  An empty
  password is supplied and still falsy: \<open>prepare\<close> completes without creating a user or
  granting anything.  When the container runtime cannot be reached, \<open>up\<close> rejects and
  nothing else is run.  When the database never accepts the \<open>create database\<close> statement,
  the database-create step never completes and neither does \<open>prepare\<close>.  When
  \<open>create user\<close> is always refused with another error than 1396, the user-creation step
  never completes, so the grant step is never reached.\<close>

theorem C6_user_steps_counterexample:
  "prepare obliging ''8.0'' ''shop'' (Some ''app'') (Some []) \<lparr>trace = [], world = ()\<rparr> =
     Some (Fulfilled,
       \<lparr>trace =
          [Exec \<lparr>command = ''docker'', args = [''start'', ''docker-mysql-8-0''], stdio = Pipe\<rparr>,
           Info ''Creating database shop...'',
           Exec \<lparr>command = ''docker'',
                 args = [''exec'', ''--env'', ''MYSQL_PWD=docker-mysql-root-password'',
                         ''docker-mysql-8-0'', ''mysql'', ''--user=root'', [], ''-e'',
                         ''create database shop''],
                 stdio = Pipe\<rparr>,
           Info ''Success: mysql is running on port 3080''],
        world = ()\<rparr>)
   \<and> prepare (refusing (ExecaError ''Cannot connect to the Docker daemon'')) ''8.0'' ''shop''
         (Some ''app'') (Some ''secret'') \<lparr>trace = [], world = ()\<rparr> =
     Some (Rejected (ExecaError ''Cannot connect to the Docker daemon''),
       \<lparr>trace =
          [Exec \<lparr>command = ''docker'', args = [''start'', ''docker-mysql-8-0''], stdio = Pipe\<rparr>,
           Exec \<lparr>command = ''docker'',
                 args = [''run'', ''--name'', ''docker-mysql-8-0'',
                         ''--env'', ''MYSQL_ROOT_PASSWORD=docker-mysql-root-password'',
                         ''--publish'', ''3080:3306'',
                         ''--volume'', ''docker-mysql-8-0:/var/lib/mysql'',
                         ''-d'', ''mysql:8.0''],
                 stdio = Inherit\<rparr>],
        world = ()\<rparr>)
   \<and> up (rejecting ''create database '' (ExecaError ''ERROR 2002: Can not connect'')) ''8.0''
         \<lparr>trace = [], world = ()\<rparr> =
       (Fulfilled,
        \<lparr>trace = [Exec \<lparr>command = ''docker'', args = [''start'', ''docker-mysql-8-0''], stdio = Pipe\<rparr>],
         world = ()\<rparr>)
   \<and> createDatabase (rejecting ''create database '' (ExecaError ''ERROR 2002: Can not connect''))
         ''8.0'' ''shop''
         \<lparr>trace = [Exec \<lparr>command = ''docker'', args = [''start'', ''docker-mysql-8-0''], stdio = Pipe\<rparr>],
          world = ()\<rparr> = None
   \<and> prepare (rejecting ''create database '' (ExecaError ''ERROR 2002: Can not connect'')) ''8.0''
         ''shop'' (Some ''app'') (Some ''secret'') \<lparr>trace = [], world = ()\<rparr> = None
   \<and> createDatabase (rejecting ''create user '' (ExecaError ''ERROR 1227: Access denied''))
         ''8.0'' ''shop''
         \<lparr>trace = [Exec \<lparr>command = ''docker'', args = [''start'', ''docker-mysql-8-0''], stdio = Pipe\<rparr>],
          world = ()\<rparr> =
       Some (Fulfilled,
         \<lparr>trace =
            [Exec \<lparr>command = ''docker'', args = [''start'', ''docker-mysql-8-0''], stdio = Pipe\<rparr>,
             Info ''Creating database shop...'',
             Exec \<lparr>command = ''docker'',
                   args = [''exec'', ''--env'', ''MYSQL_PWD=docker-mysql-root-password'',
                           ''docker-mysql-8-0'', ''mysql'', ''--user=root'', [], ''-e'',
                           ''create database shop''],
                   stdio = Pipe\<rparr>],
          world = ()\<rparr>)
   \<and> createUser (rejecting ''create user '' (ExecaError ''ERROR 1227: Access denied''))
         ''8.0'' ''app'' ''secret''
         \<lparr>trace =
            [Exec \<lparr>command = ''docker'', args = [''start'', ''docker-mysql-8-0''], stdio = Pipe\<rparr>,
             Info ''Creating database shop...'',
             Exec \<lparr>command = ''docker'',
                   args = [''exec'', ''--env'', ''MYSQL_PWD=docker-mysql-root-password'',
                           ''docker-mysql-8-0'', ''mysql'', ''--user=root'', [], ''-e'',
                           ''create database shop''],
                   stdio = Pipe\<rparr>],
          world = ()\<rparr> = None
   \<and> prepare (rejecting ''create user '' (ExecaError ''ERROR 1227: Access denied'')) ''8.0''
         ''shop'' (Some ''app'') (Some ''secret'') \<lparr>trace = [], world = ()\<rparr> = None"
proof -
  have name: "getContainerName ''8.0'' = ''docker-mysql-8-0''"
    by (simp add: getContainerName_def replace_all_def)
  have port: "getPort ''8.0'' = ''3080''"
    by (simp add: getPort_refines hostPort_spec_def pad_left_def undotted_def)
  have sent: "execMysql_args ''8.0'' q no_options =
      [''exec'', ''--env'', ''MYSQL_PWD=docker-mysql-root-password'', ''docker-mysql-8-0'',
       ''mysql'', ''--user=root'', [], ''-e'', q]" for q
    by (simp add: execMysql_args_def no_options_def name mysqlRootPassword_def render_def truthy_def)
  have pipe: "stdio_opt no_options = Pipe"
    by (simp add: no_options_def)
  let ?st0 = "\<lparr>trace = [], world = ()\<rparr>"
  let ?st1 = "\<lparr>trace = [Exec \<lparr>command = ''docker'', args = [''start'', ''docker-mysql-8-0''],
      stdio = Pipe\<rparr>], world = ()\<rparr>"
  let ?down = "ExecaError ''ERROR 2002: Can not connect''"
  let ?denied = "ExecaError ''ERROR 1227: Access denied''"
  have empty: "prepare obliging ''8.0'' ''shop'' (Some ''app'') (Some []) ?st0 =
     Some (Fulfilled,
       \<lparr>trace =
          [Exec \<lparr>command = ''docker'', args = [''start'', ''docker-mysql-8-0''], stdio = Pipe\<rparr>,
           Info ''Creating database shop...'',
           Exec \<lparr>command = ''docker'',
                 args = [''exec'', ''--env'', ''MYSQL_PWD=docker-mysql-root-password'',
                         ''docker-mysql-8-0'', ''mysql'', ''--user=root'', [], ''-e'',
                         ''create database shop''],
                 stdio = Pipe\<rparr>,
           Info ''Success: mysql is running on port 3080''],
        world = ()\<rparr>)"
    by (simp add: obliging_prepare name port truthy_def sent)
  have no_docker: "prepare (refusing (ExecaError ''Cannot connect to the Docker daemon'')) ''8.0''
       ''shop'' (Some ''app'') (Some ''secret'') ?st0 =
     Some (Rejected (ExecaError ''Cannot connect to the Docker daemon''),
       \<lparr>trace =
          [Exec \<lparr>command = ''docker'', args = [''start'', ''docker-mysql-8-0''], stdio = Pipe\<rparr>,
           Exec \<lparr>command = ''docker'',
                 args = [''run'', ''--name'', ''docker-mysql-8-0'',
                         ''--env'', ''MYSQL_ROOT_PASSWORD=docker-mysql-root-password'',
                         ''--publish'', ''3080:3306'',
                         ''--volume'', ''docker-mysql-8-0:/var/lib/mysql'',
                         ''-d'', ''mysql:8.0''],
                 stdio = Inherit\<rparr>],
        world = ()\<rparr>)"
    by (simp add: prepare_def up_def exec_result refusing_def and_then_def name port
        mysqlRootPassword_def)
  have up1: "up (rejecting ''create database '' ?down) ''8.0'' ?st0 = (Fulfilled, ?st1)"
    by (simp add: up_def exec_result rejecting_def name)
  have up2: "up (rejecting ''create user '' ?denied) ''8.0'' ?st0 = (Fulfilled, ?st1)"
    by (simp add: up_def exec_result rejecting_def name)
  have db1: "createDatabase (rejecting ''create database '' ?down) ''8.0'' ''shop'' ?st1 = None"
    unfolding createDatabase_def
    by (subst rejecting_hangs) (simp_all add: matches_def await_retry_def)
  have hang1: "prepare (rejecting ''create database '' ?down) ''8.0'' ''shop''
      (Some ''app'') (Some ''secret'') ?st0 = None"
    by (simp add: prepare_def up1 db1 and_then_def)
  let ?st2 = "\<lparr>trace =
            [Exec \<lparr>command = ''docker'', args = [''start'', ''docker-mysql-8-0''], stdio = Pipe\<rparr>,
             Info ''Creating database shop...'',
             Exec \<lparr>command = ''docker'',
                   args = [''exec'', ''--env'', ''MYSQL_PWD=docker-mysql-root-password'',
                           ''docker-mysql-8-0'', ''mysql'', ''--user=root'', [], ''-e'',
                           ''create database shop''],
                   stdio = Pipe\<rparr>],
          world = ()\<rparr>"
  have db2: "createDatabase (rejecting ''create user '' ?denied) ''8.0'' ''shop'' ?st1 =
      Some (Fulfilled, ?st2)"
  proof -
    have "execMysql (rejecting ''create user '' ?denied) ''8.0'' ''create database shop'' no_options
        (console_info ''Creating database shop...'' ?st1) = (Fulfilled, ?st2)"
      by (simp add: execMysql_result sent rejecting_def console_info_def pipe)
    then show ?thesis
      using retry_first_success [of "execMysql (rejecting ''create user '' ?denied) ''8.0''
          ''create database shop'' no_options" "console_info ''Creating database shop...'' ?st1"
          "Some ''database exists''"]
      by (simp add: createDatabase_def)
  qed
  have user2: "createUser (rejecting ''create user '' ?denied) ''8.0'' ''app'' ''secret'' ?st2 = None"
    unfolding createUser_def
    by (subst rejecting_hangs) (simp_all add: matches_def await_retry_def)
  have hang2: "prepare (rejecting ''create user '' ?denied) ''8.0'' ''shop''
      (Some ''app'') (Some ''secret'') ?st0 = None"
    by (simp add: prepare_def up2 db2 user2 and_then_def truthy_def render_def)
  from empty no_docker up1 db1 hang1 db2 user2 hang2 show ?thesis
    by (intro conjI)
qed

text \<open>
  Claim C8.  For every version, database name and credential options, the action of
  \<open>rm\<close> fulfils: it runs the one \<open>drop database\<close> statement and, whatever error that
  run ends with, the rejection is dropped.
\<close>

theorem C8_rm_swallows:
  fixes execa :: "'w runtime" and v database :: string and user pass :: "string option"
    and st :: "'w sys"
  defines "dropping \<equiv> \<lparr>command = ''docker'',
      args = execMysql_args v (''drop database '' @ database)
               \<lparr>userName = user, password = pass, databaseName = None, stdio_opt = Pipe\<rparr>,
      stdio = Pipe\<rparr>"
  shows "fst (rm execa v database user pass st) = Fulfilled
         \<and> snd (rm execa v database user pass st) =
             st\<lparr>trace := trace st @ [Exec dropping], world := snd (execa dropping (world st))\<rparr>
         \<and> (\<forall>e. fst (execa dropping (world st)) = Rejected e \<longrightarrow>
               fst (rm execa v database user pass st) = Fulfilled)"
  unfolding dropping_def
  by (simp add: rm_def execMysql_def exec_result Let_def split: settled.splits)

theorem C8_rm_swallows_witness:
  "rm (refusing (ExecaError ''ERROR 1008: database does not exist'')) ''5.7'' ''shop'' None None
      \<lparr>trace = [], world = ()\<rparr> =
     (Fulfilled,
      \<lparr>trace = [Exec \<lparr>command = ''docker'',
                      args = [''exec'', ''--env'', ''MYSQL_PWD=docker-mysql-root-password'',
                              ''docker-mysql-5-7'', ''mysql'', ''--user=root'', [], ''-e'',
                              ''drop database shop''],
                      stdio = Pipe\<rparr>],
       world = ()\<rparr>)"
proof -
  have name: "getContainerName ''5.7'' = ''docker-mysql-5-7''"
    by (simp add: getContainerName_def replace_all_def)
  show ?thesis
    using C8_rm_swallows [of "refusing (ExecaError ''ERROR 1008: database does not exist'') :: unit runtime"
        "''5.7''" "''shop''" None None "\<lparr>trace = [], world = ()\<rparr>"]
    by (simp add: prod_eq_iff name execMysql_args_def mysqlRootPassword_def render_def truthy_def
        refusing_def)
qed

end
